theory Spec2Isabelle
  imports Main "HOL-Library.Word" "HOL-Library.Sublist"
begin

section \<open>Data model of FirmwareOTA.ino\<close>

text \<open>
  The sketch runs on a 32-bit ARM Cortex-M4 (ILP32): \<open>int\<close> and \<open>unsigned long\<close> are
  32 bits wide, \<open>uint16_t\<close> is 16 bits wide.
\<close>

type_synonym c_int = "32 word"  \<comment> \<open>read as two's complement by \<open>sint\<close>\<close>
type_synonym c_ulong = "32 word"
type_synonym uint16_t = "16 word"

text \<open>
  \<open>FW_INFO\<close> is declared in the SDK header DevKitOTAUtils.h. The sketch reads four of its
  members: three \<open>char*\<close> that may be \<open>NULL\<close> (\<open>None\<close>) and the \<open>int\<close> package size.
\<close>

record FW_INFO =
  fwVersion :: "string option"
  fwPackageURI :: "string option"
  fwPackageCheckValue :: "string option"
  fwSize :: c_int

text \<open>The broken-down UTC time \<open>gmtime\<close> returns (the members \<open>strftime\<close> reads here).\<close>

record tm =
  tm_year :: nat  \<comment> \<open>years since 1900\<close>
  tm_mon :: nat   \<comment> \<open>months since January\<close>
  tm_mday :: nat
  tm_hour :: nat
  tm_min :: nat
  tm_sec :: nat

text \<open>
  Everything the sketch does to the outside world is an event of the trace, in program
  order. A status map handed to \<open>IoTHubClient_ReportOTAStatus\<close> is the list of its
  key/value pairs in insertion order.
\<close>

datatype event =
    Screen_init
  | Screen_print nat string
  | Screen_clean
  | LogInfo string
  | Serial_begin nat
  | WiFi_begin
  | DevKitMQTTClient_SetOption string string
  | IoTHubClient_GetLatestFwInfo_call
  | IoTHubClient_ReportOTAStatus "(string \<times> string) list"
  | DevKitMQTTClient_Check
  | DevKitMQTTClient_Close
  | DevKitMQTTClient_Init bool
  | time_call nat
  | OTADownloadFirmware_call string
  | OTAApplyNewFirmware_call c_int uint16_t
  | delay nat
  | SystemReboot

text \<open>
  The collaborators the sketch calls, as the answers they give during one pass of
  \<open>loop\<close>: the SDK (metadata fetch, version comparison, download, apply) and the clock.
  \<open>gmtime_now k\<close> is the broken-down time of the \<open>k\<close>-th clock read of the pass, and
  \<open>indeterminate k\<close> is what the 30-byte stack buffer of that read holds if \<open>strftime\<close>
  returns 0 and leaves it unspecified.
\<close>

record externals =
  WiFi_connected :: bool
  WiFi_localIP :: string
  IoTHubClient_GetLatestFwInfo :: "FW_INFO option"
  IoTHubClient_FwVersionCompare :: "string \<Rightarrow> string \<Rightarrow> c_int"
  gmtime_now :: "nat \<Rightarrow> tm"
  indeterminate :: "nat \<Rightarrow> string"
  OTADownloadFirmware :: "string \<Rightarrow> c_int \<times> uint16_t"
  OTAApplyNewFirmware :: "c_int \<Rightarrow> uint16_t \<Rightarrow> c_int"

text \<open>The file-scope variables of the sketch, and the trace of events so far.\<close>

record ota_state =
  hasWifi :: bool
  enableOTA :: bool
  fwInfo :: "FW_INFO option"
  trace :: "event list"

text \<open>\<open>SystemReboot\<close> does not return: a call either returns or ends in the restart.\<close>

datatype outcome = Returns ota_state | Reboots ota_state

fun final :: "outcome \<Rightarrow> ota_state" where
  "final (Returns s) = s"
| "final (Reboots s) = s"

fun rebooted :: "outcome \<Rightarrow> bool" where
  "rebooted (Returns s) = False"
| "rebooted (Reboots s) = True"

definition currentFirmwareVersion :: string where
  "currentFirmwareVersion = ''1.0.0''"

text \<open>The static initialisers: the state of the process when it starts.\<close>

definition initial_state :: ota_state where
  "initial_state = \<lparr>hasWifi = False, enableOTA = True, fwInfo = None, trace = []\<rparr>"

subsection \<open>Macros of DevKitOTAUtils.h\<close>

text \<open>
  Modelled from the spec: the header DevKitOTAUtils.h that defines the keys of the status
  map and the status strings is not part of the sources. The keys are named after the
  fields of the spec's StatusRecord, the statuses after its status vocabulary
  (\<open>CURRENT, DOWNLOADING, APPLYING, ERROR\<close>).
\<close>

definition OTA_CURRENT_FW_VERSION :: string where
  "OTA_CURRENT_FW_VERSION = ''currentVersion''"

definition OTA_PENDING_FW_VERSION :: string where
  "OTA_PENDING_FW_VERSION = ''pendingVersion''"

definition OTA_FW_UPDATE_STATUS :: string where
  "OTA_FW_UPDATE_STATUS = ''status''"

definition OTA_FW_UPDATE_SUBSTATUS :: string where
  "OTA_FW_UPDATE_SUBSTATUS = ''substatus''"

definition OTA_LAST_FW_UPDATE_STARTTIME :: string where
  "OTA_LAST_FW_UPDATE_STARTTIME = ''startTime''"

definition OTA_LAST_FW_UPDATE_ENDTIME :: string where
  "OTA_LAST_FW_UPDATE_ENDTIME = ''endTime''"

definition OTA_STATUS_CURRENT :: string where
  "OTA_STATUS_CURRENT = ''CURRENT''"

definition OTA_STATUS_DOWNLOADING :: string where
  "OTA_STATUS_DOWNLOADING = ''DOWNLOADING''"

definition OTA_STATUS_APPLYING :: string where
  "OTA_STATUS_APPLYING = ''APPLYING''"

definition OTA_STATUS_ERROR :: string where
  "OTA_STATUS_ERROR = ''ERROR''"


subsection \<open>C library functions the sketch calls\<close>

text \<open>
  \<open>Map_Add\<close> of azure-c-shared-utility appends the pair; a key that is already present is
  refused and the map is left as it is.
\<close>

definition Map_Add :: "(string \<times> string) list \<Rightarrow> string \<Rightarrow> string \<Rightarrow> (string \<times> string) list" where
  "Map_Add m k v = (if k \<in> fst ` set m then m else m @ [(k, v)])"

text \<open>Decimal digits of a number, as \<open>strftime\<close> prints them.\<close>

definition digit_char :: "nat \<Rightarrow> char" where
  "digit_char d = ''0123456789'' ! (d mod 10)"

fun dec :: "nat \<Rightarrow> string" where
  "dec n = (if n < 10 then [digit_char n] else dec (n div 10) @ [digit_char (n mod 10)])"

declare dec.simps [simp del]

definition pad2 :: "nat \<Rightarrow> string" where
  "pad2 n = (if n < 10 then CHR ''0'' # dec n else dec n)"

text \<open>The expansion of the format \<open>%Y-%m-%dT%H:%M:%S.0000000Z\<close>.\<close>

definition iso8601 :: "tm \<Rightarrow> string" where
  "iso8601 t =
     dec (tm_year t + 1900) @ ''-'' @ pad2 (tm_mon t + 1) @ ''-'' @ pad2 (tm_mday t) @ ''T'' @
     pad2 (tm_hour t) @ '':'' @ pad2 (tm_min t) @ '':'' @ pad2 (tm_sec t) @ ''.0000000Z''"

text \<open>
  \<open>strftime(buf, maxsize, "%Y-%m-%dT%H:%M:%S.0000000Z", t)\<close>: the expansion and its
  terminating NUL are stored when they fit \<open>maxsize\<close> bytes; otherwise 0 is returned and
  the buffer is unspecified (\<open>garbage\<close> stands for what it holds then).
\<close>

definition strftime :: "nat \<Rightarrow> tm \<Rightarrow> string \<Rightarrow> string" where
  "strftime maxsize t garbage =
     (if length (iso8601 t) + 1 \<le> maxsize then iso8601 t else garbage)"

text \<open>
  \<open>strtoul(s, NULL, 16)\<close> with a 32-bit \<open>unsigned long\<close>: leading white space is skipped,
  then an optional sign and an optional \<open>0x\<close> or \<open>0X\<close>, then the longest run of
  hexadecimal digits is read. No digits give 0, a value above \<open>ULONG_MAX\<close> gives
  \<open>ULONG_MAX\<close>, and a minus sign negates the value in unsigned arithmetic.
\<close>

definition isspace :: "char \<Rightarrow> bool" where
  "isspace c = (c \<in> set [CHR '' '', CHR 0x09, CHR 0x0A, CHR 0x0B, CHR 0x0C, CHR 0x0D])"

definition hex_value :: "char \<Rightarrow> nat option" where
  "hex_value c =
     (let n = (of_char c :: nat) in
      if 48 \<le> n \<and> n \<le> 57 then Some (n - 48)
      else if 65 \<le> n \<and> n \<le> 70 then Some (n - 55)
      else if 97 \<le> n \<and> n \<le> 102 then Some (n - 87)
      else None)"

fun hex_digits :: "nat \<Rightarrow> string \<Rightarrow> nat" where
  "hex_digits acc [] = acc"
| "hex_digits acc (c # cs) =
     (case hex_value c of None \<Rightarrow> acc | Some d \<Rightarrow> hex_digits (acc * 16 + d) cs)"

definition skip_0x :: "string \<Rightarrow> string" where
  "skip_0x s =
     (case s of
        c0 # c1 # cs \<Rightarrow> if c0 = CHR ''0'' \<and> (c1 = CHR ''x'' \<or> c1 = CHR ''X'') then cs else s
      | _ \<Rightarrow> s)"

definition strtoul_16 :: "string \<Rightarrow> c_ulong" where
  "strtoul_16 s =
     (let s1 = dropWhile isspace s;
          neg = (case s1 of c # _ \<Rightarrow> c = CHR ''-'' | [] \<Rightarrow> False);
          s2 = (case s1 of c # cs \<Rightarrow> if c = CHR ''-'' \<or> c = CHR ''+'' then cs else s1 | [] \<Rightarrow> s1);
          acc = hex_digits 0 (skip_0x s2)
      in if acc > 4294967295 then - 1
         else if neg then - (of_nat acc)
         else of_nat acc)"

section \<open>The sketch\<close>

definition emit :: "event list \<Rightarrow> ota_state \<Rightarrow> ota_state" where
  "emit es s = s\<lparr>trace := trace s @ es\<rparr>"

text \<open>\<open>ReportOTAStatus\<close> (lines 41 to 72): an argument that is \<open>NULL\<close> adds no pair.\<close>

definition add_opt :: "string \<Rightarrow> string option \<Rightarrow> (string \<times> string) list \<Rightarrow> (string \<times> string) list" where
  "add_opt k v m = (case v of Some x \<Rightarrow> Map_Add m k x | None \<Rightarrow> m)"

definition OTAStatusMap_of ::
  "string option \<Rightarrow> string option \<Rightarrow> string option \<Rightarrow> string option \<Rightarrow>
   string option \<Rightarrow> string option \<Rightarrow> (string \<times> string) list" where
  "OTAStatusMap_of currentFwVersion pendingFwVersion fwUpdateStatus fwUpdateSubstatus
       lastFwUpdateStartTime lastFwUpdateEndTime =
     add_opt OTA_LAST_FW_UPDATE_ENDTIME lastFwUpdateEndTime
      (add_opt OTA_LAST_FW_UPDATE_STARTTIME lastFwUpdateStartTime
        (add_opt OTA_FW_UPDATE_SUBSTATUS fwUpdateSubstatus
          (add_opt OTA_FW_UPDATE_STATUS fwUpdateStatus
            (add_opt OTA_PENDING_FW_VERSION pendingFwVersion
              (add_opt OTA_CURRENT_FW_VERSION currentFwVersion
                (Map_Add [] ''type'' ''IoTDevKit''))))))"

definition ReportOTAStatus ::
  "string option \<Rightarrow> string option \<Rightarrow> string option \<Rightarrow> string option \<Rightarrow>
   string option \<Rightarrow> string option \<Rightarrow> ota_state \<Rightarrow> ota_state" where
  "ReportOTAStatus currentFwVersion pendingFwVersion fwUpdateStatus fwUpdateSubstatus
       lastFwUpdateStartTime lastFwUpdateEndTime s =
     emit [IoTHubClient_ReportOTAStatus
             (OTAStatusMap_of currentFwVersion pendingFwVersion fwUpdateStatus
                fwUpdateSubstatus lastFwUpdateStartTime lastFwUpdateEndTime),
           DevKitMQTTClient_Check] s"

text \<open>
  \<open>OTAUpdateFailed\<close> (lines 74 to 82): the error report, then \<open>enableOTA = false\<close>, then
  the screen and the log. \<open>%s\<close> of a \<open>NULL\<close> version prints \<open>(null)\<close>.
\<close>

definition str_or_null :: "string option \<Rightarrow> string" where
  "str_or_null v = (case v of Some x \<Rightarrow> x | None \<Rightarrow> ''(null)'')"

definition OTAUpdateFailed :: "string \<Rightarrow> ota_state \<Rightarrow> ota_state" where
  "OTAUpdateFailed failedMsg s =
     (let s1 = ReportOTAStatus (Some currentFirmwareVersion)
                 (case fwInfo s of Some fw \<Rightarrow> fwVersion fw | None \<Rightarrow> Some [])
                 (Some OTA_STATUS_ERROR) (Some failedMsg) (Some []) (Some []) s;
          s2 = s1\<lparr>enableOTA := False\<rparr>
      in emit [Screen_print 1 ''OTA failed:'', Screen_print 2 failedMsg, Screen_print 3 '' '',
               LogInfo (''Failed to update firmware '' @
                        (case fwInfo s of Some fw \<Rightarrow> str_or_null (fwVersion fw)
                         | None \<Rightarrow> ''<unknown>'') @
                        '': '' @ failedMsg @ '', disable OTA update.'')] s2)"

text \<open>
  The countdown before the restart (lines 205 to 212): \<open>msg[0] = '0' + 5 - i\<close>, where
  \<open>'0'\<close> is 48.
\<close>

function countdown :: "nat \<Rightarrow> event list" where
  "countdown i =
     (if i < 5
      then [Screen_print 2 [char_of (48 + 5 - i)], LogInfo [char_of (48 + 5 - i)], delay 1000] @
           countdown (i + 1)
      else [])"
  by pat_completeness auto
termination
  by (relation "measure (\<lambda>i. 5 - i)") auto

declare countdown.simps [simp del]

text \<open>
  Lines 187 to 215 of \<open>CheckNewFirmware\<close>: apply the downloaded image; on success report
  APPLYING with both time stamps, count down and restart.
\<close>

definition apply_stage ::
  "externals \<Rightarrow> string \<Rightarrow> string \<Rightarrow> c_int \<Rightarrow> uint16_t \<Rightarrow> ota_state \<Rightarrow> outcome" where
  "apply_stage ext version startTimeStr dlSize checksum s =
     (let s1 = emit [OTAApplyNewFirmware_call dlSize checksum] s in
      if OTAApplyNewFirmware ext dlSize checksum \<noteq> 0
      then Returns (emit [Screen_print 3 '' Apply failed.''] (OTAUpdateFailed ''ApplyFirmwareFailed'' s1))
      else
        let s2 = emit [time_call 1] s1;
            endTimeStr = strftime 30 (gmtime_now ext 1) (indeterminate ext 1);
            s3 = ReportOTAStatus (Some currentFirmwareVersion) (Some version)
                   (Some OTA_STATUS_APPLYING) (Some []) (Some startTimeStr) (Some endTimeStr) s2;
            s4 = emit ([Screen_clean, Screen_print 0 ''Reboot system'',
                        LogInfo ''Reboot system to apply the new firmware:''] @ countdown 0) s3
        in Reboots (emit [SystemReboot] s4))"

text \<open>
  Lines 165 to 185: the CRC check. It is made only when the metadata carry a check value;
  the \<open>uint16_t\<close> checksum is converted to \<open>unsigned long\<close> for the comparison.
\<close>

definition verify_stage ::
  "externals \<Rightarrow> FW_INFO \<Rightarrow> string \<Rightarrow> string \<Rightarrow> c_int \<Rightarrow> uint16_t \<Rightarrow> ota_state \<Rightarrow> outcome" where
  "verify_stage ext fw version startTimeStr dlSize checksum s =
     (let s1 = emit [Screen_print 3 '' Finished.'', LogInfo ''>> Finished download.''] s in
      case fwPackageCheckValue fw of
        None \<Rightarrow> apply_stage ext version startTimeStr dlSize checksum s1
      | Some checkValue \<Rightarrow>
          let s2 = emit [Screen_print 3 '' verifying...''] s1 in
          if (ucast checksum :: c_ulong) = strtoul_16 checkValue
          then apply_stage ext version startTimeStr dlSize checksum
                 (emit [Screen_print 3 '' passed.'', LogInfo ''>> CRC check passed.''] s2)
          else Returns (emit [Screen_print 3 '' CRC failed.''] (OTAUpdateFailed ''VerifyFailed'' s2)))"

text \<open>
  Lines 145 to 163: the result of the download, by the returned size (the local
  \<open>fwSize\<close> of the source, here \<open>dlSize\<close>).
\<close>

definition check_result ::
  "externals \<Rightarrow> FW_INFO \<Rightarrow> string \<Rightarrow> string \<Rightarrow> c_int \<Rightarrow> uint16_t \<Rightarrow> ota_state \<Rightarrow> outcome" where
  "check_result ext fw version startTimeStr dlSize checksum s =
     (if dlSize = 0 \<or> dlSize = - 1 then Returns (OTAUpdateFailed ''DownloadFailed'' s)
      else if dlSize = - 2 then Returns (OTAUpdateFailed ''DeviceError'' s)
      else if dlSize \<noteq> fwSize fw then Returns (OTAUpdateFailed ''FileSizeNotMatch'' s)
      else verify_stage ext fw version startTimeStr dlSize checksum s)"

text \<open>
  Lines 123 to 143: the DOWNLOADING report with the start time, the MQTT client closed,
  the download, the MQTT client opened again.
\<close>

definition download_stage :: "externals \<Rightarrow> FW_INFO \<Rightarrow> string \<Rightarrow> string \<Rightarrow> ota_state \<Rightarrow> outcome" where
  "download_stage ext fw version uri s =
     (let s1 = emit [Screen_print 1 ''New firmware:'', Screen_print 2 version,
                     LogInfo (''New firmware is available: '' @ version @ ''.''),
                     Screen_print 3 '' downloading...'',
                     LogInfo (''>> Downloading from '' @ uri @ ''...''),
                     time_call 0] s;
          startTimeStr = strftime 30 (gmtime_now ext 0) (indeterminate ext 0);
          s2 = ReportOTAStatus (Some currentFirmwareVersion) (Some version)
                 (Some OTA_STATUS_DOWNLOADING) (Some uri) (Some startTimeStr) (Some []) s1;
          s3 = emit [DevKitMQTTClient_Close, OTADownloadFirmware_call uri] s2;
          dlSize = fst (OTADownloadFirmware ext uri);
          checksum = snd (OTADownloadFirmware ext uri);
          s4 = emit [DevKitMQTTClient_Init True] s3
      in check_result ext fw version startTimeStr dlSize checksum s4)"

text \<open>
  \<open>strlen(uri) < 6 || strncmp("https:", uri, 6) != 0\<close>: the URI does not begin with the
  six characters \<open>https:\<close>.
\<close>

definition not_https :: "string \<Rightarrow> bool" where
  "not_https uri = (length uri < 6 \<or> take 6 uri \<noteq> ''https:'')"

text \<open>\<open>CheckNewFirmware\<close> (lines 85 to 216).\<close>

definition CheckNewFirmware :: "externals \<Rightarrow> ota_state \<Rightarrow> outcome" where
  "CheckNewFirmware ext s =
     (if \<not> enableOTA s then Returns s
      else
        let s1 = emit [IoTHubClient_GetLatestFwInfo_call]
                   (s\<lparr>fwInfo := IoTHubClient_GetLatestFwInfo ext\<rparr>) in
        case fwInfo s1 of
          None \<Rightarrow> Returns s1
        | Some fw \<Rightarrow>
            (case (fwVersion fw, fwPackageURI fw) of
               (Some version, Some uri) \<Rightarrow>
                 if not_https uri then Returns (OTAUpdateFailed ''URINotHTTPS'' s1)
                 else if sint (IoTHubClient_FwVersionCompare ext version currentFirmwareVersion) \<le> 0
                 then Returns s1
                 else download_stage ext fw version uri s1
             | _ \<Rightarrow>
                 Returns ((emit [LogInfo ''Invalid new firmware infomation retrieved, disable OTA update.''] s1)
                            \<lparr>enableOTA := False\<rparr>)))"

text \<open>
  \<open>InitWifi\<close> (lines 22 to 38) and the sketch's \<open>setup()\<close> (lines 220 to 250), here
  \<open>sketch_setup\<close>. The option passed to \<open>DevKitMQTTClient_SetOption\<close> is recorded by the
  name of its macro.
\<close>

definition InitWifi :: "externals \<Rightarrow> ota_state \<Rightarrow> ota_state" where
  "InitWifi ext s =
     (let s1 = emit [Screen_print 2 ''Connecting...'', WiFi_begin] s in
      if WiFi_connected ext
      then emit [Screen_print 2 (''Running... '' @ [CHR 0x0D, CHR 0x0A])]
             ((emit [Screen_print 1 (WiFi_localIP ext)] s1)\<lparr>hasWifi := True\<rparr>)
      else emit [Screen_print 1 (''No Wi-Fi'' @ [CHR 0x0D, CHR 0x0A] @ '' '')]
             (s1\<lparr>hasWifi := False\<rparr>))"

definition sketch_setup :: "externals \<Rightarrow> ota_state \<Rightarrow> ota_state" where
  "sketch_setup ext s =
     (let s1 = emit [Screen_init, Screen_print 0 ''IoT DevKit'', Screen_print 2 ''Initializing...'',
                     Screen_print 3 '' > Serial'', Serial_begin 115200,
                     Screen_print 3 '' > WiFi''] s;
          s2 = InitWifi ext (s1\<lparr>hasWifi := False\<rparr>)
      in if \<not> hasWifi s2 then s2
         else
           let s3 = emit [Screen_print 1 ''FW version:'', Screen_print 2 currentFirmwareVersion,
                          Screen_print 3 '' checking...'',
                          DevKitMQTTClient_SetOption ''OPTION_MINI_SOLUTION_NAME'' ''FirmwareOTA'',
                          DevKitMQTTClient_Init True,
                          LogInfo (''FirmwareOTA demo: '' @ currentFirmwareVersion)] s2
           in ReportOTAStatus (Some currentFirmwareVersion) (Some []) (Some OTA_STATUS_CURRENT)
                (Some []) None None s3)"

text \<open>\<open>loop\<close> (lines 252 to 264): one poll tick.\<close>

definition loop :: "externals \<Rightarrow> ota_state \<Rightarrow> outcome" where
  "loop ext s =
     (if hasWifi s
      then (case CheckNewFirmware ext (emit [DevKitMQTTClient_Check] s) of
              Returns s1 \<Rightarrow> Returns (emit [LogInfo ''No new firmware...'', delay 1000] s1)
            | Reboots s1 \<Rightarrow> Reboots s1)
      else Returns (emit [delay 1000] s))"

text \<open>
  The Arduino runtime calls \<open>loop\<close> again and again; the collaborators may answer
  differently at each tick. The run ends at the restart.
\<close>

fun run_loop :: "externals list \<Rightarrow> ota_state \<Rightarrow> outcome" where
  "run_loop [] s = Returns s"
| "run_loop (ext # exts) s =
     (case loop ext s of
        Returns s1 \<Rightarrow> run_loop exts s1
      | Reboots s1 \<Rightarrow> Reboots s1)"

section \<open>Observing a tick\<close>

text \<open>The events one call of \<open>CheckNewFirmware\<close> adds to the trace.\<close>

definition tick_events :: "externals \<Rightarrow> ota_state \<Rightarrow> event list" where
  "tick_events ext s = drop (length (trace s)) (trace (final (CheckNewFirmware ext s)))"

fun reports :: "event list \<Rightarrow> (string \<times> string) list list" where
  "reports [] = []"
| "reports (IoTHubClient_ReportOTAStatus m # es) = m # reports es"
| "reports (e # es) = reports es"

fun download_calls :: "event list \<Rightarrow> string list" where
  "download_calls [] = []"
| "download_calls (OTADownloadFirmware_call uri # es) = uri # download_calls es"
| "download_calls (e # es) = download_calls es"

fun apply_calls :: "event list \<Rightarrow> (c_int \<times> uint16_t) list" where
  "apply_calls [] = []"
| "apply_calls (OTAApplyNewFirmware_call n c # es) = (n, c) # apply_calls es"
| "apply_calls (e # es) = apply_calls es"

fun reboots :: "event list \<Rightarrow> nat" where
  "reboots [] = 0"
| "reboots (SystemReboot # es) = Suc (reboots es)"
| "reboots (e # es) = reboots es"

definition status_of :: "(string \<times> string) list \<Rightarrow> string option" where
  "status_of m = map_of m OTA_FW_UPDATE_STATUS"

definition substatus_of :: "(string \<times> string) list \<Rightarrow> string option" where
  "substatus_of m = map_of m OTA_FW_UPDATE_SUBSTATUS"

definition startTime_of :: "(string \<times> string) list \<Rightarrow> string option" where
  "startTime_of m = map_of m OTA_LAST_FW_UPDATE_STARTTIME"

definition endTime_of :: "(string \<times> string) list \<Rightarrow> string option" where
  "endTime_of m = map_of m OTA_LAST_FW_UPDATE_ENDTIME"

text \<open>The reports with a given status, and the substatus tags of the error reports.\<close>

definition reports_with :: "string \<Rightarrow> event list \<Rightarrow> (string \<times> string) list list" where
  "reports_with st es = filter (\<lambda>m. status_of m = Some st) (reports es)"

definition error_reports :: "event list \<Rightarrow> string option list" where
  "error_reports es = map substatus_of (reports_with OTA_STATUS_ERROR es)"

text \<open>
  The CRC check of lines 169 to 185 lets the image through: there is no check value, or
  the checksum equals the parsed check value.
\<close>

definition crc_passes :: "FW_INFO \<Rightarrow> uint16_t \<Rightarrow> bool" where
  "crc_passes fw checksum =
     (case fwPackageCheckValue fw of
        None \<Rightarrow> True
      | Some checkValue \<Rightarrow> (ucast checksum :: c_ulong) = strtoul_16 checkValue)"

text \<open>
  The guards of lines 87 to 121 let the tick through to the download: OTA is enabled, the
  candidate has a version and a package URI, the URI begins with \<open>https:\<close> and the
  version compares greater than the running one.
\<close>

definition reaches_download ::
  "externals \<Rightarrow> ota_state \<Rightarrow> FW_INFO \<Rightarrow> string \<Rightarrow> string \<Rightarrow> bool" where
  "reaches_download ext s fw version uri =
     (enableOTA s \<and> IoTHubClient_GetLatestFwInfo ext = Some fw \<and>
      fwVersion fw = Some version \<and> fwPackageURI fw = Some uri \<and> prefix ''https:'' uri \<and>
      0 < sint (IoTHubClient_FwVersionCompare ext version currentFirmwareVersion))"

text \<open>
  The size checks of lines 146 to 163 let the download through to the CRC check: the
  returned size is none of 0, -1, -2 and equals the size of the metadata.
\<close>

definition size_accepted :: "FW_INFO \<Rightarrow> c_int \<Rightarrow> bool" where
  "size_accepted fw n = (n \<noteq> 0 \<and> n \<noteq> - 1 \<and> n \<noteq> - 2 \<and> n = fwSize fw)"

text \<open>The events of a tick from the metadata fetch to the return of the download.\<close>

definition download_events :: "externals \<Rightarrow> string \<Rightarrow> string \<Rightarrow> event list" where
  "download_events ext version uri =
     [IoTHubClient_GetLatestFwInfo_call,
      Screen_print 1 ''New firmware:'', Screen_print 2 version,
      LogInfo (''New firmware is available: '' @ version @ ''.''),
      Screen_print 3 '' downloading...'',
      LogInfo (''>> Downloading from '' @ uri @ ''...''),
      time_call 0,
      IoTHubClient_ReportOTAStatus
        (OTAStatusMap_of (Some currentFirmwareVersion) (Some version) (Some OTA_STATUS_DOWNLOADING)
           (Some uri) (Some (strftime 30 (gmtime_now ext 0) (indeterminate ext 0))) (Some [])),
      DevKitMQTTClient_Check,
      DevKitMQTTClient_Close,
      OTADownloadFirmware_call uri,
      DevKitMQTTClient_Init True]"

text \<open>The events of one call of \<open>OTAUpdateFailed\<close> for a candidate with a version.\<close>

definition failure_events :: "string \<Rightarrow> string \<Rightarrow> event list" where
  "failure_events version msg =
     [IoTHubClient_ReportOTAStatus
        (OTAStatusMap_of (Some currentFirmwareVersion) (Some version) (Some OTA_STATUS_ERROR)
           (Some msg) (Some []) (Some [])),
      DevKitMQTTClient_Check,
      Screen_print 1 ''OTA failed:'', Screen_print 2 msg, Screen_print 3 '' '',
      LogInfo (''Failed to update firmware '' @ version @ '': '' @ msg @ '', disable OTA update.'')]"

text \<open>The events of the CRC check when it lets the image through.\<close>

definition verified_events :: "FW_INFO \<Rightarrow> event list" where
  "verified_events fw =
     [Screen_print 3 '' Finished.'', LogInfo ''>> Finished download.''] @
     (case fwPackageCheckValue fw of
        None \<Rightarrow> []
      | Some checkValue \<Rightarrow>
          [Screen_print 3 '' verifying...'', Screen_print 3 '' passed.'',
           LogInfo ''>> CRC check passed.''])"

text \<open>
  The tick got past the size checks of lines 146 to 163 and went on to the CRC check:
  it logged the end of the download (line 166).
\<close>

definition finished_download :: "event list \<Rightarrow> bool" where
  "finished_download es = (LogInfo ''>> Finished download.'' \<in> set es)"

text \<open>The substatus lines 146 to 185 report for a download that is not let through.\<close>

definition rejection_tag :: "FW_INFO \<Rightarrow> c_int \<Rightarrow> string" where
  "rejection_tag fw n =
     (if n = 0 \<or> n = - 1 then ''DownloadFailed''
      else if n = - 2 then ''DeviceError''
      else if n \<noteq> fwSize fw then ''FileSizeNotMatch''
      else ''VerifyFailed'')"

text \<open>\<open>strftime\<close> succeeds on the 30-byte buffers of lines 131 and 196.\<close>

definition strftime_fits :: "tm \<Rightarrow> bool" where
  "strftime_fits t = (length (iso8601 t) + 1 \<le> 30)"

text \<open>The CRC comparison of line 173 was made: line 171 announces it on the screen.\<close>

definition crc_checked :: "event list \<Rightarrow> bool" where
  "crc_checked es = (Screen_print 3 '' verifying...'' \<in> set es)"

subsection \<open>Example inputs\<close>

definition example_fw :: "string option \<Rightarrow> string option \<Rightarrow> string option \<Rightarrow> c_int \<Rightarrow> FW_INFO" where
  "example_fw v u c n =
     \<lparr>fwVersion = v, fwPackageURI = u, fwPackageCheckValue = c, fwSize = n\<rparr>"

definition example_tm :: "nat \<Rightarrow> tm" where
  "example_tm k =
     \<lparr>tm_year = 126, tm_mon = 10, tm_mday = 2, tm_hour = 8, tm_min = 30, tm_sec = 7 * k\<rparr>"

text \<open>
  Collaborators that offer the candidate \<open>cand\<close>, answer every version comparison with
  \<open>cmp\<close>, every download with \<open>dl\<close> and every apply with \<open>ap\<close>.
\<close>

definition example_ext ::
  "FW_INFO option \<Rightarrow> c_int \<Rightarrow> c_int \<times> uint16_t \<Rightarrow> c_int \<Rightarrow> externals" where
  "example_ext cand cmp dl ap =
     \<lparr>WiFi_connected = True, WiFi_localIP = ''192.168.0.2'',
      IoTHubClient_GetLatestFwInfo = cand,
      IoTHubClient_FwVersionCompare = (\<lambda>a b. cmp),
      gmtime_now = example_tm,
      indeterminate = (\<lambda>k. []),
      OTADownloadFirmware = (\<lambda>uri. dl),
      OTAApplyNewFirmware = (\<lambda>n c. ap)\<rparr>"

section \<open>Basic facts\<close>

lemmas ota_macros =
  OTA_CURRENT_FW_VERSION_def OTA_PENDING_FW_VERSION_def OTA_FW_UPDATE_STATUS_def
  OTA_FW_UPDATE_SUBSTATUS_def OTA_LAST_FW_UPDATE_STARTTIME_def OTA_LAST_FW_UPDATE_ENDTIME_def
  OTA_STATUS_CURRENT_def OTA_STATUS_DOWNLOADING_def OTA_STATUS_APPLYING_def
  OTA_STATUS_ERROR_def

lemma OTAStatusMap_of_all:
  "OTAStatusMap_of (Some a) (Some b) (Some c) (Some d) (Some e) (Some f) =
     [(''type'', ''IoTDevKit''), (OTA_CURRENT_FW_VERSION, a), (OTA_PENDING_FW_VERSION, b),
      (OTA_FW_UPDATE_STATUS, c), (OTA_FW_UPDATE_SUBSTATUS, d),
      (OTA_LAST_FW_UPDATE_STARTTIME, e), (OTA_LAST_FW_UPDATE_ENDTIME, f)]"
  by (simp add: OTAStatusMap_of_def add_opt_def Map_Add_def ota_macros)

lemma status_of_all [simp]:
  "status_of (OTAStatusMap_of (Some a) (Some b) (Some c) (Some d) (Some e) (Some f)) = Some c"
  by (simp add: OTAStatusMap_of_all status_of_def) (simp add: ota_macros)

lemma substatus_of_all [simp]:
  "substatus_of (OTAStatusMap_of (Some a) (Some b) (Some c) (Some d) (Some e) (Some f)) = Some d"
  by (simp add: OTAStatusMap_of_all substatus_of_def) (simp add: ota_macros)

lemma startTime_of_all [simp]:
  "startTime_of (OTAStatusMap_of (Some a) (Some b) (Some c) (Some d) (Some e) (Some f)) = Some e"
  by (simp add: OTAStatusMap_of_all startTime_of_def) (simp add: ota_macros)

lemma endTime_of_all [simp]:
  "endTime_of (OTAStatusMap_of (Some a) (Some b) (Some c) (Some d) (Some e) (Some f)) = Some f"
  by (simp add: OTAStatusMap_of_all endTime_of_def) (simp add: ota_macros)

lemma status_neq [simp]:
  "OTA_STATUS_DOWNLOADING \<noteq> OTA_STATUS_ERROR" "OTA_STATUS_APPLYING \<noteq> OTA_STATUS_ERROR"
  "OTA_STATUS_DOWNLOADING \<noteq> OTA_STATUS_APPLYING" "OTA_STATUS_ERROR \<noteq> OTA_STATUS_APPLYING"
  "OTA_STATUS_ERROR \<noteq> OTA_STATUS_DOWNLOADING" "OTA_STATUS_APPLYING \<noteq> OTA_STATUS_DOWNLOADING"
  by (simp_all add: ota_macros)

lemma not_https_iff: "not_https uri \<longleftrightarrow> \<not> prefix ''https:'' uri"
proof
  assume "not_https uri"
  then show "\<not> prefix ''https:'' uri"
    by (auto simp: not_https_def prefix_def)
next
  assume np: "\<not> prefix ''https:'' uri"
  show "not_https uri"
  proof (rule ccontr)
    assume "\<not> not_https uri"
    then have "take 6 uri = ''https:''" by (simp add: not_https_def)
    then have "prefix ''https:'' uri" by (metis take_is_prefix)
    with np show False by simp
  qed
qed

lemma countdown_0:
  "countdown 0 =
     [Screen_print 2 ''5'', LogInfo ''5'', delay 1000, Screen_print 2 ''4'', LogInfo ''4'', delay 1000,
      Screen_print 2 ''3'', LogInfo ''3'', delay 1000, Screen_print 2 ''2'', LogInfo ''2'', delay 1000,
      Screen_print 2 ''1'', LogInfo ''1'', delay 1000]"
  by code_simp

text \<open>What the failure path does to the state.\<close>

lemma OTAUpdateFailed_state:
  "enableOTA (OTAUpdateFailed msg s) = False"
  "fwInfo (OTAUpdateFailed msg s) = fwInfo s"
  "hasWifi (OTAUpdateFailed msg s) = hasWifi s"
  by (simp_all add: OTAUpdateFailed_def ReportOTAStatus_def emit_def Let_def)

lemma OTAUpdateFailed_trace:
  "fwInfo s = Some fw \<Longrightarrow> fwVersion fw = Some version \<Longrightarrow>
   trace (OTAUpdateFailed msg s) =
     trace s @
     [IoTHubClient_ReportOTAStatus
        (OTAStatusMap_of (Some currentFirmwareVersion) (Some version) (Some OTA_STATUS_ERROR)
           (Some msg) (Some []) (Some [])),
      DevKitMQTTClient_Check,
      Screen_print 1 ''OTA failed:'', Screen_print 2 msg, Screen_print 3 '' '',
      LogInfo (''Failed to update firmware '' @ version @ '': '' @ msg @ '', disable OTA update.'')]"
  by (simp add: OTAUpdateFailed_def ReportOTAStatus_def emit_def Let_def str_or_null_def)

lemmas tick_defs =
  CheckNewFirmware_def download_stage_def check_result_def verify_stage_def
  apply_stage_def OTAUpdateFailed_def ReportOTAStatus_def emit_def Let_def

lemma trace_tick: "trace (final (CheckNewFirmware ext s)) = trace s @ tick_events ext s"
  by (simp add: tick_events_def tick_defs split: option.splits)

lemma tick_events_disabled: "\<not> enableOTA s \<Longrightarrow> tick_events ext s = []"
  by (simp add: tick_events_def CheckNewFirmware_def)

lemma tick_events_no_candidate:
  "enableOTA s \<Longrightarrow> IoTHubClient_GetLatestFwInfo ext = None \<Longrightarrow>
   tick_events ext s = [IoTHubClient_GetLatestFwInfo_call]"
  by (simp add: tick_events_def CheckNewFirmware_def emit_def)

lemma tick_events_invalid:
  "enableOTA s \<Longrightarrow> IoTHubClient_GetLatestFwInfo ext = Some fw \<Longrightarrow>
   fwVersion fw = None \<or> fwPackageURI fw = None \<Longrightarrow>
   tick_events ext s =
     [IoTHubClient_GetLatestFwInfo_call,
      LogInfo ''Invalid new firmware infomation retrieved, disable OTA update.'']"
  by (auto simp: tick_events_def CheckNewFirmware_def emit_def Let_def split: option.splits)

lemma tick_events_insecure:
  "enableOTA s \<Longrightarrow> IoTHubClient_GetLatestFwInfo ext = Some fw \<Longrightarrow>
   fwVersion fw = Some version \<Longrightarrow> fwPackageURI fw = Some uri \<Longrightarrow> \<not> prefix ''https:'' uri \<Longrightarrow>
   tick_events ext s = IoTHubClient_GetLatestFwInfo_call # failure_events version ''URINotHTTPS''"
  by (simp add: tick_events_def tick_defs not_https_iff str_or_null_def failure_events_def)

lemma tick_events_not_newer:
  "enableOTA s \<Longrightarrow> IoTHubClient_GetLatestFwInfo ext = Some fw \<Longrightarrow>
   fwVersion fw = Some version \<Longrightarrow> fwPackageURI fw = Some uri \<Longrightarrow> prefix ''https:'' uri \<Longrightarrow>
   sint (IoTHubClient_FwVersionCompare ext version currentFirmwareVersion) \<le> 0 \<Longrightarrow>
   tick_events ext s = [IoTHubClient_GetLatestFwInfo_call]"
  by (simp add: tick_events_def tick_defs not_https_iff)


text \<open>The paths of a tick that reaches the download, one lemma for each.\<close>

lemmas path_defs =
  tick_events_def tick_defs not_https_iff str_or_null_def reaches_download_def
  size_accepted_def download_events_def failure_events_def verified_events_def crc_passes_def

lemma path_download_failed:
  assumes "reaches_download ext s fw version uri"
    and "OTADownloadFirmware ext uri = (n, crc)"
    and "n = 0 \<or> n = - 1"
  shows "tick_events ext s = download_events ext version uri @ failure_events version ''DownloadFailed''"
    and "CheckNewFirmware ext s = Returns (final (CheckNewFirmware ext s))"
    and "\<not> enableOTA (final (CheckNewFirmware ext s))"
  using assms by (auto simp: path_defs)

lemma path_device_error:
  assumes "reaches_download ext s fw version uri"
    and "OTADownloadFirmware ext uri = (n, crc)"
    and "n = - 2"
  shows "tick_events ext s = download_events ext version uri @ failure_events version ''DeviceError''"
    and "CheckNewFirmware ext s = Returns (final (CheckNewFirmware ext s))"
    and "\<not> enableOTA (final (CheckNewFirmware ext s))"
  using assms by (simp_all add: path_defs)

lemma path_size_mismatch:
  assumes "reaches_download ext s fw version uri"
    and "OTADownloadFirmware ext uri = (n, crc)"
    and "n \<noteq> 0" "n \<noteq> - 1" "n \<noteq> - 2" "n \<noteq> fwSize fw"
  shows "tick_events ext s = download_events ext version uri @ failure_events version ''FileSizeNotMatch''"
    and "CheckNewFirmware ext s = Returns (final (CheckNewFirmware ext s))"
    and "\<not> enableOTA (final (CheckNewFirmware ext s))"
  using assms by (simp_all add: path_defs)

lemma path_verify_failed:
  assumes "reaches_download ext s fw version uri"
    and "OTADownloadFirmware ext uri = (n, crc)"
    and "size_accepted fw n"
    and "\<not> crc_passes fw crc"
  shows "tick_events ext s =
           download_events ext version uri @
           [Screen_print 3 '' Finished.'', LogInfo ''>> Finished download.'',
            Screen_print 3 '' verifying...''] @
           failure_events version ''VerifyFailed'' @ [Screen_print 3 '' CRC failed.'']"
    and "CheckNewFirmware ext s = Returns (final (CheckNewFirmware ext s))"
    and "\<not> enableOTA (final (CheckNewFirmware ext s))"
  using assms by (auto simp: path_defs split: option.splits)

lemma path_apply_failed:
  assumes "reaches_download ext s fw version uri"
    and "OTADownloadFirmware ext uri = (n, crc)"
    and "size_accepted fw n"
    and "crc_passes fw crc"
    and "OTAApplyNewFirmware ext n crc \<noteq> 0"
  shows "tick_events ext s =
           download_events ext version uri @ verified_events fw @
           [OTAApplyNewFirmware_call n crc] @
           failure_events version ''ApplyFirmwareFailed'' @ [Screen_print 3 '' Apply failed.'']"
    and "CheckNewFirmware ext s = Returns (final (CheckNewFirmware ext s))"
    and "\<not> enableOTA (final (CheckNewFirmware ext s))"
  using assms by (auto simp: path_defs split: option.splits)

lemma path_applied:
  assumes "reaches_download ext s fw version uri"
    and "OTADownloadFirmware ext uri = (n, crc)"
    and "size_accepted fw n"
    and "crc_passes fw crc"
    and "OTAApplyNewFirmware ext n crc = 0"
  shows "tick_events ext s =
           download_events ext version uri @ verified_events fw @
           [OTAApplyNewFirmware_call n crc, time_call 1,
            IoTHubClient_ReportOTAStatus
              (OTAStatusMap_of (Some currentFirmwareVersion) (Some version)
                 (Some OTA_STATUS_APPLYING) (Some [])
                 (Some (strftime 30 (gmtime_now ext 0) (indeterminate ext 0)))
                 (Some (strftime 30 (gmtime_now ext 1) (indeterminate ext 1)))),
            DevKitMQTTClient_Check, Screen_clean, Screen_print 0 ''Reboot system'',
            LogInfo ''Reboot system to apply the new firmware:''] @
           countdown 0 @ [SystemReboot]"
    and "CheckNewFirmware ext s = Reboots (final (CheckNewFirmware ext s))"
    and "enableOTA (final (CheckNewFirmware ext s))"
  using assms by (auto simp: path_defs split: option.splits)

text \<open>What the observers see in these event lists.\<close>

lemma reports_append [simp]: "reports (xs @ ys) = reports xs @ reports ys"
  by (induction xs rule: reports.induct) simp_all

lemma download_calls_append [simp]:
  "download_calls (xs @ ys) = download_calls xs @ download_calls ys"
  by (induction xs rule: download_calls.induct) simp_all

lemma apply_calls_append [simp]: "apply_calls (xs @ ys) = apply_calls xs @ apply_calls ys"
  by (induction xs rule: apply_calls.induct) simp_all

lemma reboots_append [simp]: "reboots (xs @ ys) = reboots xs + reboots ys"
  by (induction xs rule: reboots.induct) simp_all

lemma reports_with_append [simp]:
  "reports_with st (xs @ ys) = reports_with st xs @ reports_with st ys"
  by (simp add: reports_with_def)

lemma error_reports_append [simp]:
  "error_reports (xs @ ys) = error_reports xs @ error_reports ys"
  by (simp add: error_reports_def)

lemma failure_events_obs [simp]:
  "reports (failure_events version msg) =
     [OTAStatusMap_of (Some currentFirmwareVersion) (Some version) (Some OTA_STATUS_ERROR)
        (Some msg) (Some []) (Some [])]"
  "download_calls (failure_events version msg) = []"
  "apply_calls (failure_events version msg) = []"
  "reboots (failure_events version msg) = 0"
  by (simp_all add: failure_events_def)

lemma failure_events_errors [simp]:
  "error_reports (failure_events version msg) = [Some msg]"
  "reports_with OTA_STATUS_APPLYING (failure_events version msg) = []"
  by (simp_all add: error_reports_def reports_with_def)

lemma download_events_obs [simp]:
  "reports (download_events ext version uri) =
     [OTAStatusMap_of (Some currentFirmwareVersion) (Some version) (Some OTA_STATUS_DOWNLOADING)
        (Some uri) (Some (strftime 30 (gmtime_now ext 0) (indeterminate ext 0))) (Some [])]"
  "download_calls (download_events ext version uri) = [uri]"
  "apply_calls (download_events ext version uri) = []"
  "reboots (download_events ext version uri) = 0"
  by (simp_all add: download_events_def)

lemma download_events_errors [simp]:
  "error_reports (download_events ext version uri) = []"
  "reports_with OTA_STATUS_APPLYING (download_events ext version uri) = []"
  by (simp_all add: error_reports_def reports_with_def)

lemma verified_events_obs [simp]:
  "reports (verified_events fw) = []"
  "download_calls (verified_events fw) = []"
  "apply_calls (verified_events fw) = []"
  "reboots (verified_events fw) = 0"
  by (simp_all add: verified_events_def split: option.splits)

lemma verified_events_errors [simp]:
  "error_reports (verified_events fw) = []"
  "reports_with st (verified_events fw) = []"
  by (simp_all add: error_reports_def reports_with_def)

lemma countdown_obs [simp]:
  "reports (countdown 0) = []"
  "download_calls (countdown 0) = []"
  "apply_calls (countdown 0) = []"
  "reboots (countdown 0) = 0"
  by (simp_all add: countdown_0)

lemma countdown_errors [simp]:
  "error_reports (countdown 0) = []"
  "reports_with st (countdown 0) = []"
  by (simp_all add: error_reports_def reports_with_def)

lemma error_reports_simps [simp]:
  "error_reports [] = []"
  "error_reports (IoTHubClient_ReportOTAStatus m # es) =
     (if status_of m = Some OTA_STATUS_ERROR then substatus_of m # error_reports es
      else error_reports es)"
  "error_reports (Screen_print l x # es) = error_reports es"
  "error_reports (LogInfo x # es) = error_reports es"
  "error_reports (IoTHubClient_GetLatestFwInfo_call # es) = error_reports es"
  "error_reports (DevKitMQTTClient_Check # es) = error_reports es"
  "error_reports (OTAApplyNewFirmware_call n c # es) = error_reports es"
  "error_reports (time_call k # es) = error_reports es"
  "error_reports (Screen_clean # es) = error_reports es"
  "error_reports (SystemReboot # es) = error_reports es"
  "error_reports (DevKitMQTTClient_Close # es) = error_reports es"
  "error_reports (DevKitMQTTClient_Init b # es) = error_reports es"
  "error_reports (OTADownloadFirmware_call uri # es) = error_reports es"
  "error_reports (delay k # es) = error_reports es"
  "error_reports (Serial_begin k # es) = error_reports es"
  "error_reports (WiFi_begin # es) = error_reports es"
  "error_reports (Screen_init # es) = error_reports es"
  "error_reports (DevKitMQTTClient_SetOption x y # es) = error_reports es"
  by (simp_all add: error_reports_def reports_with_def)

text \<open>Ticks with OTA disabled.\<close>

lemma loop_disabled:
  "\<not> enableOTA s \<Longrightarrow>
   loop ext s =
     Returns (s\<lparr>trace := trace s @
                (if hasWifi s
                 then [DevKitMQTTClient_Check, LogInfo ''No new firmware...'', delay 1000]
                 else [delay 1000])\<rparr>)"
  by (simp add: loop_def CheckNewFirmware_def emit_def)

lemma run_loop_disabled:
  "\<not> enableOTA s \<Longrightarrow>
   run_loop exts s =
     Returns (s\<lparr>trace := trace s @
       concat (replicate (length exts)
         (if hasWifi s
          then [DevKitMQTTClient_Check, LogInfo ''No new firmware...'', delay 1000]
          else [delay 1000]))\<rparr>)"
proof (induction exts arbitrary: s)
  case Nil
  then show ?case by simp
next
  case (Cons ext exts)
  let ?s1 = "s\<lparr>trace := trace s @
              (if hasWifi s
               then [DevKitMQTTClient_Check, LogInfo ''No new firmware...'', delay 1000]
               else [delay 1000])\<rparr>"
  have off: "\<not> enableOTA ?s1" using Cons.prems by simp
  have "run_loop (ext # exts) s = run_loop exts ?s1"
    using Cons.prems by (simp add: loop_disabled)
  also have "\<dots> = Returns (?s1\<lparr>trace := trace ?s1 @
           concat (replicate (length exts)
             (if hasWifi ?s1
              then [DevKitMQTTClient_Check, LogInfo ''No new firmware...'', delay 1000]
              else [delay 1000]))\<rparr>)"
    by (rule Cons.IH [OF off])
  finally show ?case by simp
qed

lemma sketch_setup_enableOTA: "enableOTA (sketch_setup ext s) = enableOTA s"
  by (simp add: sketch_setup_def InitWifi_def ReportOTAStatus_def emit_def Let_def)

section \<open>The claims\<close>

text \<open>
  C9: the enabled flag never goes from false to true. Once \<open>enableOTA\<close> is false a call of
  \<open>CheckNewFirmware\<close> returns at once with the state and the trace unchanged (no metadata
  fetch, no report, no download, no apply), and any number of further poll ticks leave the
  flag false and add nothing to the trace but what \<open>loop\<close> itself does around the call
  (\<open>DevKitMQTTClient_Check\<close>, the log line and the delay). The sketch's \<open>setup()\<close> does
  not set the flag either; only a restart of the process gives \<open>initial_state\<close> again.
\<close>

theorem disabled_stays_disabled:
  assumes "\<not> enableOTA s"
  shows "CheckNewFirmware ext s = Returns s \<and>
         run_loop exts s =
           Returns (s\<lparr>trace := trace s @
             concat (replicate (length exts)
               (if hasWifi s
                then [DevKitMQTTClient_Check, LogInfo ''No new firmware...'', delay 1000]
                else [delay 1000]))\<rparr>) \<and>
         \<not> enableOTA (final (run_loop exts s)) \<and>
         \<not> enableOTA (sketch_setup ext s)"
  using assms
  by (simp add: CheckNewFirmware_def run_loop_disabled sketch_setup_enableOTA)

theorem disabled_stays_disabled_witness:
  "\<not> enableOTA (initial_state\<lparr>hasWifi := True, enableOTA := False\<rparr>) \<and>
   CheckNewFirmware (example_ext (Some (example_fw (Some ''1.1.0'') (Some ''https://host/fw.bin'') None 120)) 1 (120, 0) 0)
     (initial_state\<lparr>hasWifi := True, enableOTA := False\<rparr>) =
     Returns (initial_state\<lparr>hasWifi := True, enableOTA := False\<rparr>) \<and>
   run_loop [example_ext (Some (example_fw (Some ''1.1.0'') (Some ''https://host/fw.bin'') None 120)) 1 (120, 0) 0,
             example_ext None 0 (0, 0) 0]
     (initial_state\<lparr>hasWifi := True, enableOTA := False\<rparr>) =
     Returns \<lparr>hasWifi = True, enableOTA = False, fwInfo = None,
              trace = [DevKitMQTTClient_Check, LogInfo ''No new firmware...'', delay 1000,
                       DevKitMQTTClient_Check, LogInfo ''No new firmware...'', delay 1000]\<rparr>"
proof -
  have off: "\<not> enableOTA (initial_state\<lparr>hasWifi := True, enableOTA := False\<rparr>)"
    by (simp add: initial_state_def)
  from disabled_stays_disabled [OF off, THEN conjunct1]
    disabled_stays_disabled [OF off, THEN conjunct2, THEN conjunct1] off
  show ?thesis
    by (simp add: initial_state_def numeral_2_eq_2)
qed

text \<open>
  C4, as stated, fails: the metadata are checked for a version before the URI is looked
  at (lines 100 to 106), so a candidate with an insecure URI and no version is dropped
  as invalid metadata, without any report.
\<close>

theorem insecure_uri_counterexample:
  "enableOTA initial_state \<and>
   IoTHubClient_GetLatestFwInfo
     (example_ext (Some (example_fw None (Some ''http://x'') None 100)) 1 (100, 0) 0)
     = Some (example_fw None (Some ''http://x'') None 100) \<and>
   fwPackageURI (example_fw None (Some ''http://x'') None 100) = Some ''http://x'' \<and>
   \<not> prefix ''https:'' ''http://x'' \<and>
   reports (tick_events
     (example_ext (Some (example_fw None (Some ''http://x'') None 100)) 1 (100, 0) 0)
     initial_state) = [] \<and>
   error_reports (tick_events
     (example_ext (Some (example_fw None (Some ''http://x'') None 100)) 1 (100, 0) 0)
     initial_state) = []"
  by (simp add: tick_events_def CheckNewFirmware_def emit_def Let_def example_ext_def
      example_fw_def initial_state_def)

text \<open>
  C4, amended: for every candidate whose package URI does not begin with \<open>https:\<close>, an
  enabled tick calls neither the download nor the apply; when the candidate has a version
  the tick reports exactly one status, the error \<open>URINotHTTPS\<close>; when it has no version
  the tick makes no report at all.
\<close>

theorem insecure_uri_rejected:
  assumes "enableOTA s"
    and "IoTHubClient_GetLatestFwInfo ext = Some fw"
    and "fwPackageURI fw = Some uri"
    and "\<not> prefix ''https:'' uri"
  shows "download_calls (tick_events ext s) = [] \<and>
         apply_calls (tick_events ext s) = [] \<and>
         (case fwVersion fw of
            Some version \<Rightarrow>
              error_reports (tick_events ext s) = [Some ''URINotHTTPS''] \<and>
              length (reports (tick_events ext s)) = 1
          | None \<Rightarrow> reports (tick_events ext s) = [])"
proof (cases "fwVersion fw")
  case None
  with assms show ?thesis by (simp add: tick_events_invalid)
next
  case (Some version)
  with assms show ?thesis by (simp add: tick_events_insecure)
qed

theorem insecure_uri_rejected_witness:
  "enableOTA initial_state \<and>
   IoTHubClient_GetLatestFwInfo
     (example_ext (Some (example_fw (Some ''1.1.0'') (Some ''http://x'') None 100)) 1 (100, 0) 0)
     = Some (example_fw (Some ''1.1.0'') (Some ''http://x'') None 100) \<and>
   fwVersion (example_fw (Some ''1.1.0'') (Some ''http://x'') None 100) = Some ''1.1.0'' \<and>
   fwPackageURI (example_fw (Some ''1.1.0'') (Some ''http://x'') None 100) = Some ''http://x'' \<and>
   \<not> prefix ''https:'' ''http://x'' \<and>
   download_calls (tick_events
     (example_ext (Some (example_fw (Some ''1.1.0'') (Some ''http://x'') None 100)) 1 (100, 0) 0)
     initial_state) = [] \<and>
   apply_calls (tick_events
     (example_ext (Some (example_fw (Some ''1.1.0'') (Some ''http://x'') None 100)) 1 (100, 0) 0)
     initial_state) = [] \<and>
   error_reports (tick_events
     (example_ext (Some (example_fw (Some ''1.1.0'') (Some ''http://x'') None 100)) 1 (100, 0) 0)
     initial_state) = [Some ''URINotHTTPS''] \<and>
   length (reports (tick_events
     (example_ext (Some (example_fw (Some ''1.1.0'') (Some ''http://x'') None 100)) 1 (100, 0) 0)
     initial_state)) = 1"
proof -
  let ?fw = "example_fw (Some ''1.1.0'') (Some ''http://x'') None 100"
  let ?ext = "example_ext (Some ?fw) 1 (100, 0) 0"
  have h1: "enableOTA initial_state" by (simp add: initial_state_def)
  have h2: "IoTHubClient_GetLatestFwInfo ?ext = Some ?fw" by (simp add: example_ext_def)
  have h3: "fwVersion ?fw = Some ''1.1.0''" by (simp add: example_fw_def)
  have h4: "fwPackageURI ?fw = Some ''http://x''" by (simp add: example_fw_def)
  have h5: "\<not> prefix ''https:'' ''http://x''" by simp
  from insecure_uri_rejected [OF h1 h2 h4 h5] h1 h2 h3 h4 h5 show ?thesis by simp
qed

text \<open>
  C3, as stated, fails: the URI is checked before the version is compared, so a candidate
  that is not newer but has an insecure URI is reported as \<open>URINotHTTPS\<close>.
\<close>

theorem stale_version_counterexample:
  "sint (IoTHubClient_FwVersionCompare
           (example_ext (Some (example_fw (Some ''0.9.0'') (Some ''http://x'') None 100)) (- 1) (100, 0) 0)
           ''0.9.0'' currentFirmwareVersion) \<le> 0 \<and>
   error_reports (tick_events
     (example_ext (Some (example_fw (Some ''0.9.0'') (Some ''http://x'') None 100)) (- 1) (100, 0) 0)
     initial_state) = [Some ''URINotHTTPS'']"
  by (simp add: tick_events_def tick_defs example_ext_def example_fw_def initial_state_def
      not_https_def error_reports_def reports_with_def)

text \<open>
  C3, amended: for every candidate whose version does not compare greater than the
  running one, the tick performs no download and no apply; and when its package URI
  begins with \<open>https:\<close> it emits no report at all.
\<close>

theorem stale_version_silent:
  assumes "IoTHubClient_GetLatestFwInfo ext = Some fw"
    and "fwVersion fw = Some version"
    and "sint (IoTHubClient_FwVersionCompare ext version currentFirmwareVersion) \<le> 0"
  shows "download_calls (tick_events ext s) = [] \<and>
         apply_calls (tick_events ext s) = [] \<and>
         (\<forall>uri. fwPackageURI fw = Some uri \<and> prefix ''https:'' uri \<longrightarrow>
            reports (tick_events ext s) = [])"
proof (cases "enableOTA s")
  case False
  then show ?thesis by (simp add: tick_events_disabled)
next
  case on: True
  show ?thesis
  proof (cases "fwPackageURI fw")
    case None
    with on assms show ?thesis by (simp add: tick_events_invalid)
  next
    case (Some uri)
    show ?thesis
    proof (cases "prefix ''https:'' uri")
      case True
      with on assms Some show ?thesis by (simp add: tick_events_not_newer)
    next
      case False
      with on assms Some show ?thesis by (simp add: tick_events_insecure)
    qed
  qed
qed

theorem stale_version_silent_witness:
  "IoTHubClient_GetLatestFwInfo
     (example_ext (Some (example_fw (Some ''0.9.0'') (Some ''https://host/fw.bin'') None 100)) (- 1) (100, 0) 0)
     = Some (example_fw (Some ''0.9.0'') (Some ''https://host/fw.bin'') None 100) \<and>
   fwVersion (example_fw (Some ''0.9.0'') (Some ''https://host/fw.bin'') None 100) = Some ''0.9.0'' \<and>
   sint (IoTHubClient_FwVersionCompare
           (example_ext (Some (example_fw (Some ''0.9.0'') (Some ''https://host/fw.bin'') None 100)) (- 1) (100, 0) 0)
           ''0.9.0'' currentFirmwareVersion) \<le> 0 \<and>
   fwPackageURI (example_fw (Some ''0.9.0'') (Some ''https://host/fw.bin'') None 100)
     = Some ''https://host/fw.bin'' \<and>
   prefix ''https:'' ''https://host/fw.bin'' \<and>
   download_calls (tick_events
     (example_ext (Some (example_fw (Some ''0.9.0'') (Some ''https://host/fw.bin'') None 100)) (- 1) (100, 0) 0)
     initial_state) = [] \<and>
   apply_calls (tick_events
     (example_ext (Some (example_fw (Some ''0.9.0'') (Some ''https://host/fw.bin'') None 100)) (- 1) (100, 0) 0)
     initial_state) = [] \<and>
   reports (tick_events
     (example_ext (Some (example_fw (Some ''0.9.0'') (Some ''https://host/fw.bin'') None 100)) (- 1) (100, 0) 0)
     initial_state) = []"
proof -
  let ?fw = "example_fw (Some ''0.9.0'') (Some ''https://host/fw.bin'') None 100"
  let ?ext = "example_ext (Some ?fw) (- 1) (100, 0) 0"
  have h1: "IoTHubClient_GetLatestFwInfo ?ext = Some ?fw" by (simp add: example_ext_def)
  have h2: "fwVersion ?fw = Some ''0.9.0''" by (simp add: example_fw_def)
  have h3: "sint (IoTHubClient_FwVersionCompare ?ext ''0.9.0'' currentFirmwareVersion) \<le> 0"
    by (simp add: example_ext_def)
  have h4: "fwPackageURI ?fw = Some ''https://host/fw.bin''" by (simp add: example_fw_def)
  have h5: "prefix ''https:'' ''https://host/fw.bin''" by simp
  from stale_version_silent [OF h1 h2 h3, of initial_state] h1 h2 h3 h4 h5 show ?thesis
    by simp
qed


text \<open>Every enabled tick takes exactly one of these paths.\<close>

lemma tick_cases [case_names no_candidate invalid insecure not_newer download]:
  assumes "enableOTA s"
  obtains "IoTHubClient_GetLatestFwInfo ext = None"
  | fw where "IoTHubClient_GetLatestFwInfo ext = Some fw"
      and "fwVersion fw = None \<or> fwPackageURI fw = None"
  | fw version uri where "IoTHubClient_GetLatestFwInfo ext = Some fw"
      and "fwVersion fw = Some version" and "fwPackageURI fw = Some uri"
      and "\<not> prefix ''https:'' uri"
  | fw version uri where "IoTHubClient_GetLatestFwInfo ext = Some fw"
      and "fwVersion fw = Some version" and "fwPackageURI fw = Some uri"
      and "prefix ''https:'' uri"
      and "sint (IoTHubClient_FwVersionCompare ext version currentFirmwareVersion) \<le> 0"
  | fw version uri n crc where "reaches_download ext s fw version uri"
      and "OTADownloadFirmware ext uri = (n, crc)"
proof (cases "IoTHubClient_GetLatestFwInfo ext")
  case None
  then show ?thesis using that(1) by simp
next
  case (Some fw)
  show ?thesis
  proof (cases "fwVersion fw")
    case None
    with Some show ?thesis using that(2) by simp
  next
    case version: (Some version)
    show ?thesis
    proof (cases "fwPackageURI fw")
      case None
      with Some show ?thesis using that(2) by simp
    next
      case uri: (Some uri)
      show ?thesis
      proof (cases "prefix ''https:'' uri")
        case False
        with Some version uri show ?thesis using that(3) by simp
      next
        case https: True
        show ?thesis
        proof (cases "sint (IoTHubClient_FwVersionCompare ext version currentFirmwareVersion) \<le> 0")
          case True
          with Some version uri https show ?thesis using that(4) by simp
        next
          case False
          with assms Some version uri https
          have "reaches_download ext s fw version uri"
            by (simp add: reaches_download_def)
          then show ?thesis using that(5) [of fw version uri] by (metis surj_pair)
        qed
      qed
    qed
  qed
qed

lemma download_cases
  [case_names download_failed device_error size_mismatch verify_failed apply_failed applied]:
  obtains "n = 0 \<or> n = - 1"
  | "n = - 2"
  | "n \<noteq> 0" and "n \<noteq> - 1" and "n \<noteq> - 2" and "n \<noteq> fwSize fw"
  | "size_accepted fw n" and "\<not> crc_passes fw crc"
  | "size_accepted fw n" and "crc_passes fw crc" and "OTAApplyNewFirmware ext n crc \<noteq> 0"
  | "size_accepted fw n" and "crc_passes fw crc" and "OTAApplyNewFirmware ext n crc = 0"
  unfolding size_accepted_def by blast




lemma finished_download_simps [simp]:
  "\<not> finished_download (download_events ext version uri)"
  "\<not> finished_download (failure_events version msg)"
  "finished_download (verified_events fw)"
  "finished_download (xs @ ys) = (finished_download xs \<or> finished_download ys)"
  "finished_download (e # es) = (e = LogInfo ''>> Finished download.'' \<or> finished_download es)"
  "\<not> finished_download []"
  by (auto simp: finished_download_def download_events_def failure_events_def
      verified_events_def)

text \<open>
  C5, as stated, fails: a returned size of 0 is reported as \<open>DownloadFailed\<close> even when
  the metadata give the size 0, so the tick does not go on to the CRC check although the
  returned size equals the expected one.
\<close>

theorem download_classification_counterexample:
  "reaches_download
     (example_ext (Some (example_fw (Some ''1.1.0'') (Some ''https://host/fw.bin'') None 0)) 1 (0, 0) 0)
     initial_state (example_fw (Some ''1.1.0'') (Some ''https://host/fw.bin'') None 0)
     ''1.1.0'' ''https://host/fw.bin'' \<and>
   fst (OTADownloadFirmware
     (example_ext (Some (example_fw (Some ''1.1.0'') (Some ''https://host/fw.bin'') None 0)) 1 (0, 0) 0)
     ''https://host/fw.bin'') =
     fwSize (example_fw (Some ''1.1.0'') (Some ''https://host/fw.bin'') None 0) \<and>
   \<not> finished_download (tick_events
     (example_ext (Some (example_fw (Some ''1.1.0'') (Some ''https://host/fw.bin'') None 0)) 1 (0, 0) 0)
     initial_state) \<and>
   error_reports (tick_events
     (example_ext (Some (example_fw (Some ''1.1.0'') (Some ''https://host/fw.bin'') None 0)) 1 (0, 0) 0)
     initial_state) = [Some ''DownloadFailed'']"
proof -
  let ?fw = "example_fw (Some ''1.1.0'') (Some ''https://host/fw.bin'') None 0"
  let ?ext = "example_ext (Some ?fw) 1 (0, 0) 0"
  have r: "reaches_download ?ext initial_state ?fw ''1.1.0'' ''https://host/fw.bin''"
    by (simp add: reaches_download_def example_ext_def example_fw_def initial_state_def)
  have d: "OTADownloadFirmware ?ext ''https://host/fw.bin'' = (0, 0)"
    by (simp add: example_ext_def)
  have z: "fwSize ?fw = 0" by (simp add: example_fw_def)
  from path_download_failed(1) [OF r d] r d z show ?thesis by simp
qed

text \<open>
  C5, amended: in a tick that reaches the download, a returned size \<open>n\<close> of 0 or -1 is
  reported as \<open>DownloadFailed\<close>, -2 as \<open>DeviceError\<close>, and any other \<open>n\<close> different from
  the expected size as \<open>FileSizeNotMatch\<close>; the tick goes on to the CRC check exactly
  when \<open>n\<close> equals the expected size and is none of 0, -1 and -2.
\<close>

theorem download_classification:
  assumes "reaches_download ext s fw version uri"
    and "OTADownloadFirmware ext uri = (n, crc)"
  shows "(n = 0 \<or> n = - 1 \<longrightarrow> error_reports (tick_events ext s) = [Some ''DownloadFailed'']) \<and>
         (n = - 2 \<longrightarrow> error_reports (tick_events ext s) = [Some ''DeviceError'']) \<and>
         (n \<noteq> 0 \<and> n \<noteq> - 1 \<and> n \<noteq> - 2 \<and> n \<noteq> fwSize fw \<longrightarrow>
            error_reports (tick_events ext s) = [Some ''FileSizeNotMatch'']) \<and>
         (finished_download (tick_events ext s) \<longleftrightarrow>
            n = fwSize fw \<and> n \<noteq> 0 \<and> n \<noteq> - 1 \<and> n \<noteq> - 2)"
proof (cases rule: download_cases [where n = n and fw = fw and crc = crc and ext = ext])
  case download_failed
  from path_download_failed(1) [OF assms download_failed] download_failed
  show ?thesis by auto
next
  case device_error
  from path_device_error(1) [OF assms device_error] device_error
  show ?thesis by simp
next
  case size_mismatch
  from path_size_mismatch(1) [OF assms size_mismatch] size_mismatch
  show ?thesis by simp
next
  case verify_failed
  from path_verify_failed(1) [OF assms verify_failed] verify_failed
  show ?thesis by (auto simp: size_accepted_def)
next
  case apply_failed
  from path_apply_failed(1) [OF assms apply_failed] apply_failed
  show ?thesis by (auto simp: size_accepted_def)
next
  case applied
  from path_applied(1) [OF assms applied] applied
  show ?thesis by (auto simp: size_accepted_def)
qed

theorem download_classification_witness:
  "reaches_download
     (example_ext (Some (example_fw (Some ''1.1.0'') (Some ''https://host/fw.bin'') None 120)) 1 (100, 0) 0)
     initial_state (example_fw (Some ''1.1.0'') (Some ''https://host/fw.bin'') None 120)
     ''1.1.0'' ''https://host/fw.bin'' \<and>
   OTADownloadFirmware
     (example_ext (Some (example_fw (Some ''1.1.0'') (Some ''https://host/fw.bin'') None 120)) 1 (100, 0) 0)
     ''https://host/fw.bin'' = (100, 0) \<and>
   error_reports (tick_events
     (example_ext (Some (example_fw (Some ''1.1.0'') (Some ''https://host/fw.bin'') None 120)) 1 (100, 0) 0)
     initial_state) = [Some ''FileSizeNotMatch''] \<and>
   \<not> finished_download (tick_events
     (example_ext (Some (example_fw (Some ''1.1.0'') (Some ''https://host/fw.bin'') None 120)) 1 (100, 0) 0)
     initial_state)"
proof -
  let ?fw = "example_fw (Some ''1.1.0'') (Some ''https://host/fw.bin'') None 120"
  let ?ext = "example_ext (Some ?fw) 1 (100, 0) 0"
  have r: "reaches_download ?ext initial_state ?fw ''1.1.0'' ''https://host/fw.bin''"
    by (simp add: reaches_download_def example_ext_def example_fw_def initial_state_def)
  have d: "OTADownloadFirmware ?ext ''https://host/fw.bin'' = (100, 0)"
    by (simp add: example_ext_def)
  have z: "fwSize ?fw = 120" by (simp add: example_fw_def)
  from download_classification [OF r d] r d z show ?thesis by simp
qed

lemma crc_checked_verified [simp]:
  "crc_checked (verified_events fw) = (fwPackageCheckValue fw \<noteq> None)"
  by (cases "fwPackageCheckValue fw") (simp_all add: crc_checked_def verified_events_def)

lemma crc_checked_simps [simp]:
  "\<not> crc_checked (download_events ext version uri)"
  "\<not> crc_checked (failure_events version msg)"
  "crc_checked (xs @ ys) = (crc_checked xs \<or> crc_checked ys)"
  "crc_checked (e # es) = (e = Screen_print 3 '' verifying...'' \<or> crc_checked es)"
  "\<not> crc_checked []"
  "\<not> crc_checked (countdown 0)"
  by (auto simp: crc_checked_def download_events_def failure_events_def countdown_0)

lemma rejection_tag_simps:
  "n = 0 \<or> n = - 1 \<Longrightarrow> rejection_tag fw n = ''DownloadFailed''"
  "n = - 2 \<Longrightarrow> rejection_tag fw n = ''DeviceError''"
  "n \<noteq> 0 \<Longrightarrow> n \<noteq> - 1 \<Longrightarrow> n \<noteq> - 2 \<Longrightarrow> n \<noteq> fwSize fw \<Longrightarrow> rejection_tag fw n = ''FileSizeNotMatch''"
  "size_accepted fw n \<Longrightarrow> rejection_tag fw n = ''VerifyFailed''"
  by (auto simp: rejection_tag_def size_accepted_def)

text \<open>
  C2: the applier is called only in a tick whose download returned the expected size
  and whose CRC check passed or was skipped; and in a tick that reaches the download,
  a deviation in the size or in the checksum makes the tick report the corresponding
  substatus (\<open>DownloadFailed\<close>, \<open>DeviceError\<close>, \<open>FileSizeNotMatch\<close> or \<open>VerifyFailed\<close>)
  as its only error and never call the applier.
\<close>

theorem apply_only_when_verified:
  "(apply_calls (tick_events ext s) \<noteq> [] \<longrightarrow>
      (\<exists>fw uri. IoTHubClient_GetLatestFwInfo ext = Some fw \<and> fwPackageURI fw = Some uri \<and>
         fst (OTADownloadFirmware ext uri) = fwSize fw \<and>
         crc_passes fw (snd (OTADownloadFirmware ext uri)))) \<and>
   (\<forall>fw version uri.
      reaches_download ext s fw version uri \<and>
      (fst (OTADownloadFirmware ext uri) \<noteq> fwSize fw \<or>
       \<not> crc_passes fw (snd (OTADownloadFirmware ext uri))) \<longrightarrow>
      apply_calls (tick_events ext s) = [] \<and>
      error_reports (tick_events ext s) =
        [Some (rejection_tag fw (fst (OTADownloadFirmware ext uri)))])"
proof (intro conjI impI allI)
  assume called: "apply_calls (tick_events ext s) \<noteq> []"
  have on: "enableOTA s"
  proof (rule ccontr)
    assume "\<not> enableOTA s"
    with called show False by (simp add: tick_events_disabled)
  qed
  from on show "\<exists>fw uri. IoTHubClient_GetLatestFwInfo ext = Some fw \<and> fwPackageURI fw = Some uri \<and>
         fst (OTADownloadFirmware ext uri) = fwSize fw \<and>
         crc_passes fw (snd (OTADownloadFirmware ext uri))"
  proof (cases rule: tick_cases [where ext = ext])
    case no_candidate
    with on called show ?thesis by (simp add: tick_events_no_candidate)
  next
    case (invalid fw)
    with on called show ?thesis by (simp add: tick_events_invalid)
  next
    case (insecure fw version uri)
    with on called show ?thesis by (simp add: tick_events_insecure)
  next
    case (not_newer fw version uri)
    with on called show ?thesis by (simp add: tick_events_not_newer)
  next
    case (download fw version uri n crc)
    then have fw: "IoTHubClient_GetLatestFwInfo ext = Some fw" "fwPackageURI fw = Some uri"
      by (simp_all add: reaches_download_def)
    show ?thesis
    proof (cases rule: download_cases [where n = n and fw = fw and crc = crc and ext = ext])
      case download_failed
      from path_download_failed(1) [OF download download_failed] called show ?thesis by simp
    next
      case device_error
      from path_device_error(1) [OF download device_error] called show ?thesis by simp
    next
      case size_mismatch
      from path_size_mismatch(1) [OF download size_mismatch] called show ?thesis by simp
    next
      case verify_failed
      from path_verify_failed(1) [OF download verify_failed] called show ?thesis by simp
    next
      case apply_failed
      with fw download(2) show ?thesis by (auto simp: size_accepted_def)
    next
      case applied
      with fw download(2) show ?thesis by (auto simp: size_accepted_def)
    qed
  qed
next
  fix fw version uri
  assume a: "reaches_download ext s fw version uri \<and>
      (fst (OTADownloadFirmware ext uri) \<noteq> fwSize fw \<or>
       \<not> crc_passes fw (snd (OTADownloadFirmware ext uri)))"
  obtain n crc where dl: "OTADownloadFirmware ext uri = (n, crc)"
    by (cases "OTADownloadFirmware ext uri")
  from a have r: "reaches_download ext s fw version uri" by simp
  from a dl have dev: "n \<noteq> fwSize fw \<or> \<not> crc_passes fw crc" by simp
  have "apply_calls (tick_events ext s) = [] \<and>
      error_reports (tick_events ext s) = [Some (rejection_tag fw n)]"
  proof (cases rule: download_cases [where n = n and fw = fw and crc = crc and ext = ext])
    case download_failed
    from path_download_failed(1) [OF r dl download_failed] download_failed
    show ?thesis by (simp add: rejection_tag_simps)
  next
    case device_error
    from path_device_error(1) [OF r dl device_error] device_error
    show ?thesis by (simp add: rejection_tag_simps)
  next
    case size_mismatch
    from path_size_mismatch(1) [OF r dl size_mismatch] size_mismatch
    show ?thesis by (simp add: rejection_tag_simps)
  next
    case verify_failed
    from path_verify_failed(1) [OF r dl verify_failed] verify_failed
    show ?thesis by (simp add: rejection_tag_simps)
  next
    case apply_failed
    with dev show ?thesis by (simp add: size_accepted_def)
  next
    case applied
    with dev show ?thesis by (simp add: size_accepted_def)
  qed
  with dl show "apply_calls (tick_events ext s) = []" by simp
  from \<open>apply_calls (tick_events ext s) = [] \<and>
      error_reports (tick_events ext s) = [Some (rejection_tag fw n)]\<close> dl
  show "error_reports (tick_events ext s) =
        [Some (rejection_tag fw (fst (OTADownloadFirmware ext uri)))]" by simp
qed

lemmas strtoul_simps = strtoul_16_def isspace_def skip_0x_def hex_value_def

lemmas example_defs = example_ext_def example_fw_def example_tm_def initial_state_def

theorem apply_only_when_verified_witness:
  "apply_calls (tick_events
     (example_ext (Some (example_fw (Some ''1.1.0'') (Some ''https://host/fw.bin'') (Some ''1A2B'') 120))
        1 (120, 0x1A2B) 0) initial_state) \<noteq> [] \<and>
   (\<exists>fw uri.
      IoTHubClient_GetLatestFwInfo
        (example_ext (Some (example_fw (Some ''1.1.0'') (Some ''https://host/fw.bin'') (Some ''1A2B'') 120))
           1 (120, 0x1A2B) 0) = Some fw \<and>
      fwPackageURI fw = Some uri \<and>
      fst (OTADownloadFirmware
        (example_ext (Some (example_fw (Some ''1.1.0'') (Some ''https://host/fw.bin'') (Some ''1A2B'') 120))
           1 (120, 0x1A2B) 0) uri) = fwSize fw \<and>
      crc_passes fw (snd (OTADownloadFirmware
        (example_ext (Some (example_fw (Some ''1.1.0'') (Some ''https://host/fw.bin'') (Some ''1A2B'') 120))
           1 (120, 0x1A2B) 0) uri))) \<and>
   reaches_download
     (example_ext (Some (example_fw (Some ''1.1.0'') (Some ''https://host/fw.bin'') (Some ''1A2B'') 120))
        1 (120, 0x1A2C) 0)
     initial_state (example_fw (Some ''1.1.0'') (Some ''https://host/fw.bin'') (Some ''1A2B'') 120)
     ''1.1.0'' ''https://host/fw.bin'' \<and>
   \<not> crc_passes (example_fw (Some ''1.1.0'') (Some ''https://host/fw.bin'') (Some ''1A2B'') 120) 0x1A2C \<and>
   apply_calls (tick_events
     (example_ext (Some (example_fw (Some ''1.1.0'') (Some ''https://host/fw.bin'') (Some ''1A2B'') 120))
        1 (120, 0x1A2C) 0) initial_state) = [] \<and>
   error_reports (tick_events
     (example_ext (Some (example_fw (Some ''1.1.0'') (Some ''https://host/fw.bin'') (Some ''1A2B'') 120))
        1 (120, 0x1A2C) 0) initial_state) = [Some ''VerifyFailed'']"
proof -
  let ?fw = "example_fw (Some ''1.1.0'') (Some ''https://host/fw.bin'') (Some ''1A2B'') 120"
  let ?ok = "example_ext (Some ?fw) 1 (120, 0x1A2B) 0"
  let ?bad = "example_ext (Some ?fw) 1 (120, 0x1A2C) 0"
  have r_ok: "reaches_download ?ok initial_state ?fw ''1.1.0'' ''https://host/fw.bin''"
    by (simp add: reaches_download_def example_defs)
  have d_ok: "OTADownloadFirmware ?ok ''https://host/fw.bin'' = (120, 0x1A2B)"
    by (simp add: example_defs)
  have sz: "size_accepted ?fw 120" by (simp add: size_accepted_def example_defs)
  have crc_ok: "crc_passes ?fw 0x1A2B"
    by (simp add: crc_passes_def example_defs strtoul_simps)
  have ap: "OTAApplyNewFirmware ?ok 120 0x1A2B = 0" by (simp add: example_defs)
  have called: "apply_calls (tick_events ?ok initial_state) \<noteq> []"
    using path_applied(1) [OF r_ok d_ok sz crc_ok ap] by simp
  have r_bad: "reaches_download ?bad initial_state ?fw ''1.1.0'' ''https://host/fw.bin''"
    by (simp add: reaches_download_def example_defs)
  have d_bad: "OTADownloadFirmware ?bad ''https://host/fw.bin'' = (120, 0x1A2C)"
    by (simp add: example_defs)
  have crc_bad: "\<not> crc_passes ?fw 0x1A2C"
    by (simp add: crc_passes_def example_defs strtoul_simps)
  have tag: "rejection_tag ?fw 120 = ''VerifyFailed''"
    by (simp add: rejection_tag_def example_defs)
  from apply_only_when_verified [of ?ok initial_state] called
  have first: "\<exists>fw uri. IoTHubClient_GetLatestFwInfo ?ok = Some fw \<and> fwPackageURI fw = Some uri \<and>
      fst (OTADownloadFirmware ?ok uri) = fwSize fw \<and>
      crc_passes fw (snd (OTADownloadFirmware ?ok uri))"
    by blast
  from apply_only_when_verified [of ?bad initial_state] r_bad d_bad crc_bad
  have "apply_calls (tick_events ?bad initial_state) = [] \<and>
      error_reports (tick_events ?bad initial_state) =
        [Some (rejection_tag ?fw (fst (OTADownloadFirmware ?bad ''https://host/fw.bin'')))]"
    by (metis snd_conv)
  with d_bad tag have second: "apply_calls (tick_events ?bad initial_state) = [] \<and>
      error_reports (tick_events ?bad initial_state) = [Some ''VerifyFailed'']"
    by simp
  from called first r_bad crc_bad second show ?thesis by blast
qed

text \<open>
  C6: in a tick whose download is let through by the size checks, a candidate without a
  check value skips the CRC comparison and the applier is called; with a check value the
  comparison is made, a checksum that differs from the parsed check value is reported as
  \<open>VerifyFailed\<close> and the applier is not called, and a checksum that equals it lets the
  tick go on to call the applier.
\<close>

theorem crc_check_policy:
  assumes "reaches_download ext s fw version uri"
    and "OTADownloadFirmware ext uri = (n, crc)"
    and "size_accepted fw n"
  shows "case fwPackageCheckValue fw of
           None \<Rightarrow>
             \<not> crc_checked (tick_events ext s) \<and>
             Some ''VerifyFailed'' \<notin> set (error_reports (tick_events ext s)) \<and>
             apply_calls (tick_events ext s) = [(n, crc)]
         | Some checkValue \<Rightarrow>
             crc_checked (tick_events ext s) \<and>
             (if (ucast crc :: c_ulong) = strtoul_16 checkValue
              then Some ''VerifyFailed'' \<notin> set (error_reports (tick_events ext s)) \<and>
                   apply_calls (tick_events ext s) = [(n, crc)]
              else error_reports (tick_events ext s) = [Some ''VerifyFailed''] \<and>
                   apply_calls (tick_events ext s) = [])"
proof (cases "crc_passes fw crc")
  case False
  from path_verify_failed(1) [OF assms False] False show ?thesis
    by (simp add: crc_passes_def split: option.splits)
next
  case passes: True
  show ?thesis
  proof (cases "OTAApplyNewFirmware ext n crc = 0")
    case True
    from path_applied(1) [OF assms passes True] passes show ?thesis
      by (simp add: crc_passes_def split: option.splits)
  next
    case False
    from path_apply_failed(1) [OF assms passes False] passes show ?thesis
      by (simp add: crc_passes_def split: option.splits)
  qed
qed

theorem crc_check_policy_witness:
  "reaches_download
     (example_ext (Some (example_fw (Some ''1.1.0'') (Some ''https://host/fw.bin'') None 120)) 1 (120, 7) 0)
     initial_state (example_fw (Some ''1.1.0'') (Some ''https://host/fw.bin'') None 120)
     ''1.1.0'' ''https://host/fw.bin'' \<and>
   size_accepted (example_fw (Some ''1.1.0'') (Some ''https://host/fw.bin'') None 120) 120 \<and>
   \<not> crc_checked (tick_events
     (example_ext (Some (example_fw (Some ''1.1.0'') (Some ''https://host/fw.bin'') None 120)) 1 (120, 7) 0)
     initial_state) \<and>
   apply_calls (tick_events
     (example_ext (Some (example_fw (Some ''1.1.0'') (Some ''https://host/fw.bin'') None 120)) 1 (120, 7) 0)
     initial_state) = [(120, 7)] \<and>
   reaches_download
     (example_ext (Some (example_fw (Some ''1.1.0'') (Some ''https://host/fw.bin'') (Some ''1A2B'') 120))
        1 (120, 0x1A2C) 0)
     initial_state (example_fw (Some ''1.1.0'') (Some ''https://host/fw.bin'') (Some ''1A2B'') 120)
     ''1.1.0'' ''https://host/fw.bin'' \<and>
   (ucast (0x1A2C :: uint16_t) :: c_ulong) \<noteq> strtoul_16 ''1A2B'' \<and>
   error_reports (tick_events
     (example_ext (Some (example_fw (Some ''1.1.0'') (Some ''https://host/fw.bin'') (Some ''1A2B'') 120))
        1 (120, 0x1A2C) 0) initial_state) = [Some ''VerifyFailed''] \<and>
   apply_calls (tick_events
     (example_ext (Some (example_fw (Some ''1.1.0'') (Some ''https://host/fw.bin'') (Some ''1A2B'') 120))
        1 (120, 0x1A2C) 0) initial_state) = [] \<and>
   reaches_download
     (example_ext (Some (example_fw (Some ''1.1.0'') (Some ''https://host/fw.bin'') (Some ''1A2B'') 120))
        1 (120, 0x1A2B) 0)
     initial_state (example_fw (Some ''1.1.0'') (Some ''https://host/fw.bin'') (Some ''1A2B'') 120)
     ''1.1.0'' ''https://host/fw.bin'' \<and>
   (ucast (0x1A2B :: uint16_t) :: c_ulong) = strtoul_16 ''1A2B'' \<and>
   apply_calls (tick_events
     (example_ext (Some (example_fw (Some ''1.1.0'') (Some ''https://host/fw.bin'') (Some ''1A2B'') 120))
        1 (120, 0x1A2B) 0) initial_state) = [(120, 0x1A2B)]"
proof -
  let ?fw0 = "example_fw (Some ''1.1.0'') (Some ''https://host/fw.bin'') None 120"
  let ?fw1 = "example_fw (Some ''1.1.0'') (Some ''https://host/fw.bin'') (Some ''1A2B'') 120"
  let ?e0 = "example_ext (Some ?fw0) 1 (120, 7) 0"
  let ?e1 = "example_ext (Some ?fw1) 1 (120, 0x1A2C) 0"
  let ?e2 = "example_ext (Some ?fw1) 1 (120, 0x1A2B) 0"
  have r0: "reaches_download ?e0 initial_state ?fw0 ''1.1.0'' ''https://host/fw.bin''"
    by (simp add: reaches_download_def example_defs)
  have r1: "reaches_download ?e1 initial_state ?fw1 ''1.1.0'' ''https://host/fw.bin''"
    by (simp add: reaches_download_def example_defs)
  have r2: "reaches_download ?e2 initial_state ?fw1 ''1.1.0'' ''https://host/fw.bin''"
    by (simp add: reaches_download_def example_defs)
  have d0: "OTADownloadFirmware ?e0 ''https://host/fw.bin'' = (120, 7)"
    by (simp add: example_defs)
  have d1: "OTADownloadFirmware ?e1 ''https://host/fw.bin'' = (120, 0x1A2C)"
    by (simp add: example_defs)
  have d2: "OTADownloadFirmware ?e2 ''https://host/fw.bin'' = (120, 0x1A2B)"
    by (simp add: example_defs)
  have s0: "size_accepted ?fw0 120" by (simp add: size_accepted_def example_defs)
  have s1: "size_accepted ?fw1 120" by (simp add: size_accepted_def example_defs)
  have c0: "fwPackageCheckValue ?fw0 = None" by (simp add: example_defs)
  have c1: "fwPackageCheckValue ?fw1 = Some ''1A2B''" by (simp add: example_defs)
  have ne: "(ucast (0x1A2C :: uint16_t) :: c_ulong) \<noteq> strtoul_16 ''1A2B''"
    by (simp add: strtoul_simps)
  have eq: "(ucast (0x1A2B :: uint16_t) :: c_ulong) = strtoul_16 ''1A2B''"
    by (simp add: strtoul_simps)
  from crc_check_policy [OF r0 d0 s0] c0
  have w0: "\<not> crc_checked (tick_events ?e0 initial_state) \<and>
            apply_calls (tick_events ?e0 initial_state) = [(120, 7)]"
    by simp
  from crc_check_policy [OF r1 d1 s1] c1 ne
  have w1: "error_reports (tick_events ?e1 initial_state) = [Some ''VerifyFailed''] \<and>
            apply_calls (tick_events ?e1 initial_state) = []"
    by simp
  from crc_check_policy [OF r2 d2 s1] c1 eq
  have w2: "apply_calls (tick_events ?e2 initial_state) = [(120, 0x1A2B)]"
    by simp
  from r0 s0 w0 r1 ne w1 r2 eq w2 show ?thesis by blast
qed

lemma ucast16_le: "(ucast (x :: 16 word) :: 32 word) \<le> 0xFFFF"
proof -
  have up: "is_up (ucast :: 16 word \<Rightarrow> 32 word)" by (simp add: is_up)
  have "uint x < 2 ^ 16" using unsigned_less [of x, where 'a = int] by simp
  then have "uint (ucast x :: 32 word) \<le> uint (0xFFFF :: 32 word)"
    by (simp add: uint_up_ucast [OF up])
  then show ?thesis by (simp add: word_le_def)
qed

text \<open>
  C10: the checksum is a \<open>uint16_t\<close> and the check value is parsed by \<open>strtoul\<close> into an
  \<open>unsigned long\<close>; so in a tick whose download is let through by the size checks, a
  check value that parses to more than \<open>0xFFFF\<close> makes the CRC check fail whatever the
  checksum is: \<open>VerifyFailed\<close> is reported and the applier is not called.
\<close>

theorem wide_check_value_fails:
  assumes "reaches_download ext s fw version uri"
    and "OTADownloadFirmware ext uri = (n, crc)"
    and "size_accepted fw n"
    and "fwPackageCheckValue fw = Some checkValue"
    and "0xFFFF < strtoul_16 checkValue"
  shows "(ucast crc :: c_ulong) \<noteq> strtoul_16 checkValue \<and>
         error_reports (tick_events ext s) = [Some ''VerifyFailed''] \<and>
         apply_calls (tick_events ext s) = []"
proof -
  have ne: "(ucast crc :: c_ulong) \<noteq> strtoul_16 checkValue"
    using ucast16_le [of crc] assms(5) by auto
  with assms(4) have "\<not> crc_passes fw crc" by (simp add: crc_passes_def)
  from path_verify_failed(1) [OF assms(1-3) this] ne show ?thesis by simp
qed

theorem wide_check_value_fails_witness:
  "reaches_download
     (example_ext (Some (example_fw (Some ''1.1.0'') (Some ''https://host/fw.bin'') (Some ''12345'') 120))
        1 (120, 0x2345) 0)
     initial_state (example_fw (Some ''1.1.0'') (Some ''https://host/fw.bin'') (Some ''12345'') 120)
     ''1.1.0'' ''https://host/fw.bin'' \<and>
   size_accepted (example_fw (Some ''1.1.0'') (Some ''https://host/fw.bin'') (Some ''12345'') 120) 120 \<and>
   strtoul_16 ''12345'' = 0x12345 \<and>
   (0xFFFF :: c_ulong) < strtoul_16 ''12345'' \<and>
   error_reports (tick_events
     (example_ext (Some (example_fw (Some ''1.1.0'') (Some ''https://host/fw.bin'') (Some ''12345'') 120))
        1 (120, 0x2345) 0) initial_state) = [Some ''VerifyFailed''] \<and>
   apply_calls (tick_events
     (example_ext (Some (example_fw (Some ''1.1.0'') (Some ''https://host/fw.bin'') (Some ''12345'') 120))
        1 (120, 0x2345) 0) initial_state) = []"
proof -
  let ?fw = "example_fw (Some ''1.1.0'') (Some ''https://host/fw.bin'') (Some ''12345'') 120"
  let ?ext = "example_ext (Some ?fw) 1 (120, 0x2345) 0"
  have r: "reaches_download ?ext initial_state ?fw ''1.1.0'' ''https://host/fw.bin''"
    by (simp add: reaches_download_def example_defs)
  have d: "OTADownloadFirmware ?ext ''https://host/fw.bin'' = (120, 0x2345)"
    by (simp add: example_defs)
  have sz: "size_accepted ?fw 120" by (simp add: size_accepted_def example_defs)
  have c: "fwPackageCheckValue ?fw = Some ''12345''" by (simp add: example_defs)
  have v: "strtoul_16 ''12345'' = 0x12345" by (simp add: strtoul_simps)
  have wide: "(0xFFFF :: c_ulong) < strtoul_16 ''12345''" by (simp add: v)
  from wide_check_value_fails [OF r d sz c wide] r sz v wide show ?thesis by simp
qed

lemma download_events_length: "length (download_events ext version uri) = 12"
  by (simp add: download_events_def)

lemma iso8601_nonempty: "iso8601 t \<noteq> []"
  by (simp add: iso8601_def)

lemma strftime_fits_eq: "strftime_fits t \<Longrightarrow> strftime 30 t garbage = iso8601 t"
  by (simp add: strftime_fits_def strftime_def)

text \<open>
  A date with a year of at most five digits and two-digit day and time fields fits the
  30 bytes.
\<close>

lemma dec_length_1: "n < 10 \<Longrightarrow> length (dec n) = 1"
  by (subst dec.simps) simp

lemma dec_length_2: "n < 100 \<Longrightarrow> length (dec n) \<le> 2"
  by (subst dec.simps) (simp add: dec_length_1)

lemma dec_length_3: "n < 1000 \<Longrightarrow> length (dec n) \<le> 3"
  by (subst dec.simps) (use dec_length_2 [of "n div 10"] in simp)

lemma dec_length_4: "n < 10000 \<Longrightarrow> length (dec n) \<le> 4"
  by (subst dec.simps) (use dec_length_3 [of "n div 10"] in simp)

lemma dec_length_5: "n < 100000 \<Longrightarrow> length (dec n) \<le> 5"
  by (subst dec.simps) (use dec_length_4 [of "n div 10"] in simp)

lemma pad2_length: "n < 100 \<Longrightarrow> length (pad2 n) = 2"
  by (cases "n < 10") (simp_all add: pad2_def dec_length_1, subst dec.simps, simp add: dec_length_1)

lemma strftime_fits_calendar:
  assumes "tm_year t + 1900 < 100000" "tm_mon t < 12" "tm_mday t < 100"
    "tm_hour t < 100" "tm_min t < 100" "tm_sec t < 100"
  shows "strftime_fits t"
  using assms dec_length_5 [of "tm_year t + 1900"]
  by (simp add: strftime_fits_def iso8601_def pad2_length)

text \<open>
  C8: a tick that reaches the download stage begins with these twelve events, whatever
  the download returns: the metadata fetch, the screen and log lines, the clock read,
  the DOWNLOADING report that carries the start time formatted from that clock read
  (\<open>ReportOTAStatus\<close> ends with its \<open>DevKitMQTTClient_Check\<close>), then at once
  \<open>DevKitMQTTClient_Close\<close>, the download call, and \<open>DevKitMQTTClient_Init\<close> as soon as
  the download has returned. The DOWNLOADING report is the only report among them, so
  the classification of the result and every further report come after the client is
  open again.
\<close>

theorem download_stage_order:
  assumes "reaches_download ext s fw version uri"
  shows "take 12 (tick_events ext s) =
           [IoTHubClient_GetLatestFwInfo_call,
            Screen_print 1 ''New firmware:'', Screen_print 2 version,
            LogInfo (''New firmware is available: '' @ version @ ''.''),
            Screen_print 3 '' downloading...'',
            LogInfo (''>> Downloading from '' @ uri @ ''...''),
            time_call 0,
            IoTHubClient_ReportOTAStatus
              (OTAStatusMap_of (Some currentFirmwareVersion) (Some version)
                 (Some OTA_STATUS_DOWNLOADING) (Some uri)
                 (Some (strftime 30 (gmtime_now ext 0) (indeterminate ext 0))) (Some [])),
            DevKitMQTTClient_Check,
            DevKitMQTTClient_Close,
            OTADownloadFirmware_call uri,
            DevKitMQTTClient_Init True] \<and>
         download_calls (tick_events ext s) = [uri] \<and>
         reports_with OTA_STATUS_DOWNLOADING (tick_events ext s) =
           [OTAStatusMap_of (Some currentFirmwareVersion) (Some version)
              (Some OTA_STATUS_DOWNLOADING) (Some uri)
              (Some (strftime 30 (gmtime_now ext 0) (indeterminate ext 0))) (Some [])] \<and>
         (strftime_fits (gmtime_now ext 0) \<longrightarrow>
            strftime 30 (gmtime_now ext 0) (indeterminate ext 0) = iso8601 (gmtime_now ext 0))"
proof -
  obtain n crc where dl: "OTADownloadFirmware ext uri = (n, crc)"
    by (cases "OTADownloadFirmware ext uri")
  have "\<exists>rest. tick_events ext s = download_events ext version uri @ rest \<and>
          download_calls rest = [] \<and> reports_with OTA_STATUS_DOWNLOADING rest = []"
  proof (cases rule: download_cases [where n = n and fw = fw and crc = crc and ext = ext])
    case download_failed
    from path_download_failed(1) [OF assms dl download_failed] show ?thesis
      by (simp add: reports_with_def)
  next
    case device_error
    from path_device_error(1) [OF assms dl device_error] show ?thesis
      by (simp add: reports_with_def)
  next
    case size_mismatch
    from path_size_mismatch(1) [OF assms dl size_mismatch] show ?thesis
      by (simp add: reports_with_def)
  next
    case verify_failed
    from path_verify_failed(1) [OF assms dl verify_failed] show ?thesis
      by (simp add: reports_with_def)
  next
    case apply_failed
    from path_apply_failed(1) [OF assms dl apply_failed] show ?thesis
      by (simp add: reports_with_def)
  next
    case applied
    from path_applied(1) [OF assms dl applied] show ?thesis
      by (simp add: reports_with_def)
  qed
  then obtain rest where ev: "tick_events ext s = download_events ext version uri @ rest"
    and rest: "download_calls rest = []" "reports_with OTA_STATUS_DOWNLOADING rest = []"
    by blast
  have "take 12 (tick_events ext s) = download_events ext version uri"
    by (simp add: ev download_events_length)
  moreover have "download_calls (tick_events ext s) = [uri]"
    by (simp add: ev rest)
  moreover have "reports_with OTA_STATUS_DOWNLOADING (tick_events ext s) =
           [OTAStatusMap_of (Some currentFirmwareVersion) (Some version)
              (Some OTA_STATUS_DOWNLOADING) (Some uri)
              (Some (strftime 30 (gmtime_now ext 0) (indeterminate ext 0))) (Some [])]"
    by (simp add: ev rest) (simp add: reports_with_def)
  ultimately show ?thesis
    by (simp add: download_events_def strftime_fits_eq)
qed

lemma example_time:
  "strftime_fits (example_tm 0)" "strftime_fits (example_tm 1)"
  "iso8601 (example_tm 0) = ''2026-11-02T08:30:00.0000000Z''"
  "iso8601 (example_tm 1) = ''2026-11-02T08:30:07.0000000Z''"
  "strftime_fits (example_tm (Suc 0))"
  "iso8601 (example_tm (Suc 0)) = ''2026-11-02T08:30:07.0000000Z''"
  by (simp_all add: strftime_fits_def iso8601_def example_tm_def pad2_def dec.simps
      digit_char_def)

theorem download_stage_order_witness:
  "reaches_download
     (example_ext (Some (example_fw (Some ''1.1.0'') (Some ''https://host/fw.bin'') None 120)) 1 (- 1, 0) 0)
     initial_state (example_fw (Some ''1.1.0'') (Some ''https://host/fw.bin'') None 120)
     ''1.1.0'' ''https://host/fw.bin'' \<and>
   strftime_fits (gmtime_now
     (example_ext (Some (example_fw (Some ''1.1.0'') (Some ''https://host/fw.bin'') None 120)) 1 (- 1, 0) 0) 0) \<and>
   take 12 (tick_events
     (example_ext (Some (example_fw (Some ''1.1.0'') (Some ''https://host/fw.bin'') None 120)) 1 (- 1, 0) 0)
     initial_state) =
     [IoTHubClient_GetLatestFwInfo_call,
      Screen_print 1 ''New firmware:'', Screen_print 2 ''1.1.0'',
      LogInfo ''New firmware is available: 1.1.0.'',
      Screen_print 3 '' downloading...'',
      LogInfo ''>> Downloading from https://host/fw.bin...'',
      time_call 0,
      IoTHubClient_ReportOTAStatus
        (OTAStatusMap_of (Some ''1.0.0'') (Some ''1.1.0'') (Some OTA_STATUS_DOWNLOADING)
           (Some ''https://host/fw.bin'') (Some ''2026-11-02T08:30:00.0000000Z'') (Some [])),
      DevKitMQTTClient_Check,
      DevKitMQTTClient_Close,
      OTADownloadFirmware_call ''https://host/fw.bin'',
      DevKitMQTTClient_Init True] \<and>
   error_reports (drop 12 (tick_events
     (example_ext (Some (example_fw (Some ''1.1.0'') (Some ''https://host/fw.bin'') None 120)) 1 (- 1, 0) 0)
     initial_state)) = [Some ''DownloadFailed'']"
proof -
  let ?fw = "example_fw (Some ''1.1.0'') (Some ''https://host/fw.bin'') None 120"
  let ?ext = "example_ext (Some ?fw) 1 (- 1, 0) 0"
  have r: "reaches_download ?ext initial_state ?fw ''1.1.0'' ''https://host/fw.bin''"
    by (simp add: reaches_download_def example_ext_def example_fw_def initial_state_def)
  have d: "OTADownloadFirmware ?ext ''https://host/fw.bin'' = (- 1, 0)"
    by (simp add: example_ext_def)
  have g: "gmtime_now ?ext = example_tm" by (simp add: example_ext_def)
  have fits: "strftime_fits (gmtime_now ?ext 0)" by (simp add: g example_time)
  have after: "error_reports (drop 12 (tick_events ?ext initial_state)) = [Some ''DownloadFailed'']"
    using path_download_failed(1) [OF r d] by (simp add: download_events_length)
  from download_stage_order [OF r] r fits after show ?thesis
    by (simp add: g example_time currentFirmwareVersion_def)
qed

text \<open>
  C7: when every stage succeeds (the download is let through by the size checks, the CRC
  check passes or is skipped, the applier returns 0, and both time stamps fit their
  30-byte buffers), the events of the tick are those of the download and of the CRC
  check followed by: the one call of the applier, the clock read, the one report with
  status APPLYING, which carries the non-empty start and end time stamps, the count-down
  and last the one call of \<open>SystemReboot\<close>, from which the tick does not return.
\<close>

theorem successful_update:
  assumes "reaches_download ext s fw version uri"
    and "OTADownloadFirmware ext uri = (n, crc)"
    and "size_accepted fw n"
    and "crc_passes fw crc"
    and "OTAApplyNewFirmware ext n crc = 0"
    and "strftime_fits (gmtime_now ext 0)"
    and "strftime_fits (gmtime_now ext 1)"
  shows "tick_events ext s =
           download_events ext version uri @ verified_events fw @
           [OTAApplyNewFirmware_call n crc, time_call 1,
            IoTHubClient_ReportOTAStatus
              (OTAStatusMap_of (Some currentFirmwareVersion) (Some version)
                 (Some OTA_STATUS_APPLYING) (Some [])
                 (Some (iso8601 (gmtime_now ext 0))) (Some (iso8601 (gmtime_now ext 1)))),
            DevKitMQTTClient_Check, Screen_clean, Screen_print 0 ''Reboot system'',
            LogInfo ''Reboot system to apply the new firmware:''] @
           countdown 0 @ [SystemReboot] \<and>
         apply_calls (tick_events ext s) = [(n, crc)] \<and>
         (\<exists>m. reports_with OTA_STATUS_APPLYING (tick_events ext s) = [m] \<and>
              startTime_of m = Some (iso8601 (gmtime_now ext 0)) \<and>
              endTime_of m = Some (iso8601 (gmtime_now ext 1))) \<and>
         iso8601 (gmtime_now ext 0) \<noteq> [] \<and> iso8601 (gmtime_now ext 1) \<noteq> [] \<and>
         error_reports (tick_events ext s) = [] \<and>
         reboots (tick_events ext s) = 1 \<and>
         last (tick_events ext s) = SystemReboot \<and>
         rebooted (CheckNewFirmware ext s)"
proof -
  note path = path_applied [OF assms(1-5)]
  have ev: "tick_events ext s =
           download_events ext version uri @ verified_events fw @
           [OTAApplyNewFirmware_call n crc, time_call 1,
            IoTHubClient_ReportOTAStatus
              (OTAStatusMap_of (Some currentFirmwareVersion) (Some version)
                 (Some OTA_STATUS_APPLYING) (Some [])
                 (Some (iso8601 (gmtime_now ext 0))) (Some (iso8601 (gmtime_now ext 1)))),
            DevKitMQTTClient_Check, Screen_clean, Screen_print 0 ''Reboot system'',
            LogInfo ''Reboot system to apply the new firmware:''] @
           countdown 0 @ [SystemReboot]"
    using path(1) assms(6,7) by (simp add: strftime_fits_eq)
  have calls: "apply_calls (tick_events ext s) = [(n, crc)]"
    by (simp add: ev)
  have applying: "reports_with OTA_STATUS_APPLYING (tick_events ext s) =
      [OTAStatusMap_of (Some currentFirmwareVersion) (Some version)
         (Some OTA_STATUS_APPLYING) (Some [])
         (Some (iso8601 (gmtime_now ext 0))) (Some (iso8601 (gmtime_now ext 1)))]"
    by (simp add: ev) (simp add: reports_with_def)
  have errs: "error_reports (tick_events ext s) = []"
    by (simp add: ev)
  have boots: "reboots (tick_events ext s) = 1"
    by (simp add: ev)
  have lst: "last (tick_events ext s) = SystemReboot"
    by (simp add: ev)
  have rb: "rebooted (CheckNewFirmware ext s)"
    by (subst path(2)) simp
  from ev calls applying errs boots lst rb show ?thesis
    by (simp add: iso8601_nonempty)
qed

theorem successful_update_witness:
  "reaches_download
     (example_ext (Some (example_fw (Some ''1.1.0'') (Some ''https://host/fw.bin'') (Some ''1A2B'') 120))
        1 (120, 0x1A2B) 0)
     initial_state (example_fw (Some ''1.1.0'') (Some ''https://host/fw.bin'') (Some ''1A2B'') 120)
     ''1.1.0'' ''https://host/fw.bin'' \<and>
   size_accepted (example_fw (Some ''1.1.0'') (Some ''https://host/fw.bin'') (Some ''1A2B'') 120) 120 \<and>
   crc_passes (example_fw (Some ''1.1.0'') (Some ''https://host/fw.bin'') (Some ''1A2B'') 120) 0x1A2B \<and>
   OTAApplyNewFirmware
     (example_ext (Some (example_fw (Some ''1.1.0'') (Some ''https://host/fw.bin'') (Some ''1A2B'') 120))
        1 (120, 0x1A2B) 0) 120 0x1A2B = 0 \<and>
   strftime_fits (example_tm 0) \<and> strftime_fits (example_tm 1) \<and>
   apply_calls (tick_events
     (example_ext (Some (example_fw (Some ''1.1.0'') (Some ''https://host/fw.bin'') (Some ''1A2B'') 120))
        1 (120, 0x1A2B) 0) initial_state) = [(120, 0x1A2B)] \<and>
   (\<exists>m. reports_with OTA_STATUS_APPLYING (tick_events
     (example_ext (Some (example_fw (Some ''1.1.0'') (Some ''https://host/fw.bin'') (Some ''1A2B'') 120))
        1 (120, 0x1A2B) 0) initial_state) = [m] \<and>
      startTime_of m = Some ''2026-11-02T08:30:00.0000000Z'' \<and>
      endTime_of m = Some ''2026-11-02T08:30:07.0000000Z'') \<and>
   reboots (tick_events
     (example_ext (Some (example_fw (Some ''1.1.0'') (Some ''https://host/fw.bin'') (Some ''1A2B'') 120))
        1 (120, 0x1A2B) 0) initial_state) = 1 \<and>
   rebooted (CheckNewFirmware
     (example_ext (Some (example_fw (Some ''1.1.0'') (Some ''https://host/fw.bin'') (Some ''1A2B'') 120))
        1 (120, 0x1A2B) 0) initial_state)"
proof -
  let ?fw = "example_fw (Some ''1.1.0'') (Some ''https://host/fw.bin'') (Some ''1A2B'') 120"
  let ?ext = "example_ext (Some ?fw) 1 (120, 0x1A2B) 0"
  have r: "reaches_download ?ext initial_state ?fw ''1.1.0'' ''https://host/fw.bin''"
    by (simp add: reaches_download_def example_ext_def example_fw_def initial_state_def)
  have d: "OTADownloadFirmware ?ext ''https://host/fw.bin'' = (120, 0x1A2B)"
    by (simp add: example_ext_def)
  have sz: "size_accepted ?fw 120" by (simp add: size_accepted_def example_fw_def)
  have crc: "crc_passes ?fw 0x1A2B"
    by (simp add: crc_passes_def example_fw_def strtoul_simps)
  have ap: "OTAApplyNewFirmware ?ext 120 0x1A2B = 0" by (simp add: example_ext_def)
  have g: "gmtime_now ?ext = example_tm" by (simp add: example_ext_def)
  have f0: "strftime_fits (gmtime_now ?ext 0)" by (simp add: g example_time)
  have f1: "strftime_fits (gmtime_now ?ext 1)" by (simp add: g example_time)
  from successful_update [OF r d sz crc ap f0 f1, THEN conjunct2] r sz crc ap show ?thesis
    by (simp add: g example_time)
qed

end
